theory Spec2Isabelle
  imports Complex_Main "HOL-Library.Sublist"
begin

section \<open>JavaScript values\<close>

text \<open>
  The plugin is TypeScript running on a JavaScript engine. Strings are modelled as
  \<^typ>\<open>string\<close> (a list of 8-bit characters, read as the UTF-8 bytes of the text), numbers
  as \<open>jsnum\<close> (the finite values, the two infinities and NaN), and the values the HTTP
  layer hands back as \<open>json\<close>, with \<open>undefined\<close> added since property reads produce it.
\<close>

datatype jsnum = NaN | PosInf | NegInf | Fin real

datatype json =
    JUndefined
  | JNull
  | JBool bool
  | JNum jsnum
  | JStr string
  | JArr "json list"
  | JObj "(string \<times> json) list"

text \<open>What a rejected promise or a throw carries.\<close>

datatype exn = TransportError | TypeError | PageError | TimeoutError

text \<open>
  \<open>v.key\<close>: reading a property of \<open>undefined\<close> or \<open>null\<close> throws a TypeError; an object
  gives the field or \<open>undefined\<close>. The keys read by the client are \<open>code\<close>, \<open>data\<close> and
  \<open>taskId\<close>, none of which is a property of an array, a string, a number or a boolean, so
  those give \<open>undefined\<close>. Objects hold each key once.
\<close>

fun member :: "json \<Rightarrow> string \<Rightarrow> exn + json" where
  "member JUndefined k = Inl TypeError"
| "member JNull k = Inl TypeError"
| "member (JObj fs) k = Inr (case map_of fs k of None \<Rightarrow> JUndefined | Some v \<Rightarrow> v)"
| "member v k = Inr JUndefined"

text \<open>\<open>v?.key\<close>: optional chaining short-circuits to \<open>undefined\<close> on \<open>undefined\<close> and \<open>null\<close>.\<close>

fun opt_member :: "json \<Rightarrow> string \<Rightarrow> json" where
  "opt_member JUndefined k = JUndefined"
| "opt_member JNull k = JUndefined"
| "opt_member (JObj fs) k = (case map_of fs k of None \<Rightarrow> JUndefined | Some v \<Rightarrow> v)"
| "opt_member v k = JUndefined"

text \<open>\<open>a ?? b\<close>.\<close>

definition nullish_or :: "json \<Rightarrow> json \<Rightarrow> json" where
  "nullish_or a b = (if a = JUndefined \<or> a = JNull then b else a)"

text \<open>\<open>v !== n\<close> for a finite number literal \<open>n\<close>: only the number \<open>n\<close> itself is equal.\<close>

fun strict_neq_num :: "json \<Rightarrow> real \<Rightarrow> bool" where
  "strict_neq_num (JNum (Fin x)) n = (x \<noteq> n)"
| "strict_neq_num v n = True"

text \<open>\<open>Number(v)\<close> of an option value that is a number or absent, and the truthiness of a number.\<close>

fun Number_of :: "jsnum option \<Rightarrow> jsnum" where
  "Number_of None = NaN"
| "Number_of (Some n) = n"

fun truthy_num :: "jsnum \<Rightarrow> bool" where
  "truthy_num NaN = False"
| "truthy_num (Fin x) = (x \<noteq> 0)"
| "truthy_num n = True"

text \<open>\<open>a || b\<close> on numbers.\<close>

definition or_num :: "jsnum \<Rightarrow> jsnum \<Rightarrow> jsnum" where
  "or_num a b = (if truthy_num a then a else b)"

section \<open>String helpers of the runtime\<close>

definition hex_digit :: "nat \<Rightarrow> char" where
  "hex_digit n = ''0123456789ABCDEF'' ! (n mod 16)"

definition percent_byte :: "char \<Rightarrow> string" where
  "percent_byte c = [CHR ''%'', hex_digit (of_char c div 16), hex_digit (of_char c mod 16)]"

definition alnum :: "char \<Rightarrow> bool" where
  "alnum c = (c \<in> set ''ABCDEFGHIJKLMNOPQRSTUVWXYZabcdefghijklmnopqrstuvwxyz0123456789'')"

text \<open>
  \<open>encodeURIComponent\<close>: every byte of the UTF-8 text is percent-encoded except the
  letters, the digits and \<open>- _ . ! ~ * ' ( )\<close>. A JavaScript string with a lone
  surrogate, on which the built-in throws, is not the UTF-8 form of any text and has no
  counterpart among the strings of the model.
\<close>

definition uri_unreserved :: "char \<Rightarrow> bool" where
  "uri_unreserved c = (alnum c \<or> c \<in> set ''-_.!~*()'' \<or> c = CHR 0x27)"

definition encodeURIComponent :: "string \<Rightarrow> string" where
  "encodeURIComponent s = concat (map (\<lambda>c. if uri_unreserved c then [c] else percent_byte c) s)"

text \<open>
  \<open>URLSearchParams.toString\<close>: the form-urlencoded serialisation; letters, digits and
  \<open>* - . _\<close> stay, a space becomes \<open>+\<close>, every other byte is percent-encoded; pairs are
  joined by \<open>&\<close>.
\<close>

definition form_byte :: "char \<Rightarrow> string" where
  "form_byte c =
     (if alnum c \<or> c \<in> set ''*-._'' then [c]
      else if c = CHR '' '' then ''+''
      else percent_byte c)"

definition form_encode :: "string \<Rightarrow> string" where
  "form_encode s = concat (map form_byte s)"

fun params_toString :: "(string \<times> string) list \<Rightarrow> string" where
  "params_toString [] = []"
| "params_toString [(k, v)] = form_encode k @ ''='' @ form_encode v"
| "params_toString ((k, v) # ps) = form_encode k @ ''='' @ form_encode v @ ''&'' @ params_toString ps"

text \<open>\<open>params.set(k, v)\<close>: replaces the value of the first pair with that key, or appends.\<close>

fun params_set :: "(string \<times> string) list \<Rightarrow> string \<Rightarrow> string \<Rightarrow> (string \<times> string) list" where
  "params_set [] k v = [(k, v)]"
| "params_set ((k', v') # ps) k v =
     (if k' = k then (k, v) # filter (\<lambda>p. fst p \<noteq> k) ps else (k', v') # params_set ps k v)"

text \<open>
  \<open>String(n)\<close> for an integer \<open>n\<close> of magnitude below \<open>10^21\<close>, where JavaScript prints
  the decimal digits (from there on it prints an exponent, and a count that is not an
  integer prints a fraction; neither is modelled).
\<close>

fun string_of_nat :: "nat \<Rightarrow> string" where
  "string_of_nat n =
     (if n < 10 then [hex_digit n] else string_of_nat (n div 10) @ [hex_digit (n mod 10)])"

definition String_int :: "int \<Rightarrow> string" where
  "String_int i = (if i < 0 then ''-'' @ string_of_nat (nat (- i)) else string_of_nat (nat i))"

section \<open>The content-service client\<close>

record client =
  endpoint :: string
  userAgent :: string

text \<open>
  The constructor: \<open>if (!this.endpoint) this.endpoint = ''\<close>. An absent endpoint is \<open>None\<close>.
\<close>

definition new_client :: "string option \<Rightarrow> string \<Rightarrow> client" where
  "new_client ep ua = \<lparr>endpoint = (case ep of None \<Rightarrow> [] | Some e \<Rightarrow> e), userAgent = ua\<rparr>"

text \<open>\<open>s.replace(/\/$/, '')\<close>: the pattern matches one slash at the very end.\<close>

definition trim_trailing_slash :: "string \<Rightarrow> string" where
  "trim_trailing_slash s = (if s \<noteq> [] \<and> last s = CHR ''/'' then butlast s else s)"

text \<open>\<open>path.startsWith('/')\<close>.\<close>

fun startsWith_slash :: "string \<Rightarrow> bool" where
  "startsWith_slash [] = False"
| "startsWith_slash (c # cs) = (c = CHR ''/'')"

text \<open>\<open>LuoguSaverClient.buildUrl\<close> of \<open>src/index.ts\<close>.\<close>

definition buildUrl :: "string \<Rightarrow> string \<Rightarrow> string" where
  "buildUrl ep path =
     (let base = trim_trailing_slash ep in
      if base = [] then path
      else if startsWith_slash path then base @ path
      else base @ ''/'' @ path)"

text \<open>
  The earlier revision of the client (the second source file) has the same \<open>buildUrl\<close> with
  one more line: once the base is known to be non-empty it writes \<open>base + path\<close> to the
  console. The model returns the lines written and the URL.
\<close>

definition buildUrl_logging :: "string \<Rightarrow> string \<Rightarrow> string list \<times> string" where
  "buildUrl_logging ep path =
     (let base = trim_trailing_slash ep in
      if base = [] then ([], path)
      else if startsWith_slash path then ([base @ path], base @ path)
      else ([base @ path], base @ ''/'' @ path))"

text \<open>
  \<open>headers(extra)\<close>: \<open>Object.assign({'User-Agent': this.userAgent}, extra || {})\<close>; the keys
  of \<open>extra\<close> win.
\<close>

definition headers :: "client \<Rightarrow> (string \<rightharpoonup> string) option \<Rightarrow> (string \<rightharpoonup> string)" where
  "headers c extra =
     [''User-Agent'' \<mapsto> userAgent c] ++ (case extra of None \<Rightarrow> Map.empty | Some e \<Rightarrow> e)"

datatype http_method = GET | POST

record http_request =
  req_method :: http_method
  req_url :: string
  req_headers :: "string \<rightharpoonup> string"
  req_body :: "json option"

text \<open>
  \<open>ctx.http\<close>, the HTTP service of the host framework: a request either rejects (a
  transport-level failure) or resolves to the parsed response body.
\<close>

type_synonym http = "http_request \<Rightarrow> exn + json"

definition get_request :: "client \<Rightarrow> string \<Rightarrow> (string \<rightharpoonup> string) option \<Rightarrow> http_request" where
  "get_request c path extra =
     \<lparr>req_method = GET, req_url = buildUrl (endpoint c) path,
      req_headers = headers c extra, req_body = None\<rparr>"

definition post_request ::
  "client \<Rightarrow> string \<Rightarrow> json \<Rightarrow> (string \<rightharpoonup> string) option \<Rightarrow> http_request" where
  "post_request c path body extra =
     \<lparr>req_method = POST, req_url = buildUrl (endpoint c) path,
      req_headers = headers c extra, req_body = Some body\<rparr>"

text \<open>
  \<open>if (res.code !== 200) return null; return res.data\<close>, the tail shared by \<open>getArticle\<close>,
  \<open>getPaste\<close> and \<open>getTask\<close>.
\<close>

definition code_then_data :: "json \<Rightarrow> exn + json" where
  "code_then_data res =
     (case member res ''code'' of
        Inl e \<Rightarrow> Inl e
      | Inr code \<Rightarrow> if strict_neq_num code 200 then Inr JNull else member res ''data'')"

definition getArticle :: "http \<Rightarrow> client \<Rightarrow> string \<Rightarrow> (string \<rightharpoonup> string) option \<Rightarrow> exn + json" where
  "getArticle http c ident extra =
     (case http (get_request c (''/article/query/'' @ encodeURIComponent ident) extra) of
        Inl e \<Rightarrow> Inl e
      | Inr res \<Rightarrow> code_then_data res)"

definition getPaste :: "http \<Rightarrow> client \<Rightarrow> string \<Rightarrow> (string \<rightharpoonup> string) option \<Rightarrow> exn + json" where
  "getPaste http c ident extra =
     (case http (get_request c (''/paste/query/'' @ encodeURIComponent ident) extra) of
        Inl e \<Rightarrow> Inl e
      | Inr res \<Rightarrow> code_then_data res)"

definition getTask :: "http \<Rightarrow> client \<Rightarrow> string \<Rightarrow> (string \<rightharpoonup> string) option \<Rightarrow> exn + json" where
  "getTask http c ident extra =
     (case http (get_request c (''/task/query/'' @ encodeURIComponent ident) extra) of
        Inl e \<Rightarrow> Inl e
      | Inr res \<Rightarrow> code_then_data res)"

text \<open>\<open>createTask\<close>: \<open>if (res.code !== 200) return null; return res.data.taskId\<close>.\<close>

definition createTask :: "http \<Rightarrow> client \<Rightarrow> json \<Rightarrow> (string \<rightharpoonup> string) option \<Rightarrow> exn + json" where
  "createTask http c body extra =
     (case http (post_request c ''/task/create'' body extra) of
        Inl e \<Rightarrow> Inl e
      | Inr res \<Rightarrow>
          (case member res ''code'' of
             Inl e \<Rightarrow> Inl e
           | Inr code \<Rightarrow>
               if strict_neq_num code 200 then Inr JNull
               else (case member res ''data'' of
                       Inl e \<Rightarrow> Inl e
                     | Inr d \<Rightarrow> member d ''taskId'')))"

text \<open>
  The list operations end in \<open>return res?.data?.data ?? null\<close>. They do not look at \<open>code\<close>.
\<close>

definition data_data_or_null :: "json \<Rightarrow> json" where
  "data_data_or_null res = nullish_or (opt_member (opt_member res ''data'') ''data'') JNull"

record recent_opts =
  count :: "int option"
  updated_after :: "string option"
  truncated_count :: "int option"

text \<open>
  The query string of \<open>getRecent\<close>: \<open>count\<close> and \<open>truncated_count\<close> are set when not
  \<open>null\<close>/\<open>undefined\<close>, \<open>updated_after\<close> when truthy (a non-empty string). The counts are
  integers here.
\<close>

definition recent_params :: "recent_opts option \<Rightarrow> (string \<times> string) list" where
  "recent_params opts =
     (let p0 = [];
          p1 = (case Option.bind opts count of
                  None \<Rightarrow> p0 | Some n \<Rightarrow> params_set p0 ''count'' (String_int n));
          p2 = (case Option.bind opts updated_after of
                  None \<Rightarrow> p1
                | Some s \<Rightarrow> if s = [] then p1 else params_set p1 ''updated_after'' s);
          p3 = (case Option.bind opts truncated_count of
                  None \<Rightarrow> p2 | Some n \<Rightarrow> params_set p2 ''truncated_count'' (String_int n))
      in p3)"

definition recent_path :: "recent_opts option \<Rightarrow> string" where
  "recent_path opts =
     (let q = params_toString (recent_params opts) in
      ''/article/recent'' @ (if q \<noteq> [] then ''?'' @ q else []))"

definition getRecent ::
  "http \<Rightarrow> client \<Rightarrow> recent_opts option \<Rightarrow> (string \<rightharpoonup> string) option \<Rightarrow> exn + json" where
  "getRecent http c opts extra =
     (case http (get_request c (recent_path opts) extra) of
        Inl e \<Rightarrow> Inl e
      | Inr res \<Rightarrow> Inr (data_data_or_null res))"

definition getCount :: "http \<Rightarrow> client \<Rightarrow> (string \<rightharpoonup> string) option \<Rightarrow> exn + json" where
  "getCount http c extra =
     (case http (get_request c ''/article/count'' extra) of
        Inl e \<Rightarrow> Inl e
      | Inr res \<Rightarrow> Inr (data_data_or_null res))"

definition getRelevant :: "http \<Rightarrow> client \<Rightarrow> string \<Rightarrow> (string \<rightharpoonup> string) option \<Rightarrow> exn + json" where
  "getRelevant http c ident extra =
     (case http (get_request c (''/article/relevant/'' @ encodeURIComponent ident) extra) of
        Inl e \<Rightarrow> Inl e
      | Inr res \<Rightarrow> Inr (data_data_or_null res))"

definition getHistory :: "http \<Rightarrow> client \<Rightarrow> string \<Rightarrow> (string \<rightharpoonup> string) option \<Rightarrow> exn + json" where
  "getHistory http c ident extra =
     (case http (get_request c (''/article/history/'' @ encodeURIComponent ident) extra) of
        Inl e \<Rightarrow> Inl e
      | Inr res \<Rightarrow> Inr (data_data_or_null res))"

section \<open>Effects: promises, exceptions and the browser\<close>

text \<open>
  An awaited call either yields a value, rejects (throws), or never settles. A command is
  a function from the world before to an outcome and the world after. The world holds
  the calls made on the browser, in order, and the number of pages currently open.
\<close>

record viewport =
  width :: jsnum
  height :: jsnum
  deviceScaleFactor :: jsnum

text \<open>
  The texts written to the logger and sent back to the user are not ASCII; they are named
  here: \<open>FontWaitFailed\<close> is the warning of the font wait, \<open>ArticleShotFailed\<close> and
  \<open>PasteShotFailed\<close> the two error lines, \<open>NoPuppeteer\<close> the reply when the browser service
  is missing, \<open>ArticleFailed\<close> and \<open>PasteFailed\<close> the replies of the two catch blocks.
\<close>

datatype log_text = FontWaitFailed | ArticleShotFailed | PasteShotFailed

datatype reply_text = NoPuppeteer | ArticleFailed | PasteFailed

type_synonym buffer = "nat list"

datatype reply = Text reply_text | Image buffer string

datatype action =
    PageOpen
  | SetViewport viewport
  | SetContent string
  | EvaluateFontsReady
  | LoggerWarn log_text exn
  | WaitForFunction string nat nat
  | EvaluateImages "nat option"
  | Screenshot
  | LoggerError log_text exn
  | PageClose

record world =
  trace :: "action list"
  open_pages :: nat

datatype 'a outcome = Value 'a | Thrown exn | Pending

type_synonym 'a io = "world \<Rightarrow> 'a outcome \<times> world"

definition ret :: "'a \<Rightarrow> 'a io" where
  "ret x w = (Value x, w)"

text \<open>\<open>await m\<close>, then the rest: a throw or a promise that never settles ends the sequence.\<close>

definition bind :: "'a io \<Rightarrow> ('a \<Rightarrow> 'b io) \<Rightarrow> 'b io" where
  "bind m f w =
     (case m w of
        (Value x, w') \<Rightarrow> f x w'
      | (Thrown e, w') \<Rightarrow> (Thrown e, w')
      | (Pending, w') \<Rightarrow> (Pending, w'))"

text \<open>\<open>try { m } catch (e) { h e }\<close>.\<close>

definition try_catch :: "'a io \<Rightarrow> (exn \<Rightarrow> 'a io) \<Rightarrow> 'a io" where
  "try_catch m h w =
     (case m w of
        (Thrown e, w') \<Rightarrow> h e w'
      | r \<Rightarrow> r)"

text \<open>
  \<open>try { m } finally { fin }\<close>: once \<open>m\<close> has returned or thrown, \<open>fin\<close> runs and the outcome
  of \<open>m\<close> stands unless \<open>fin\<close> throws. While \<open>m\<close> is suspended on a promise that never
  settles, \<open>fin\<close> does not run.
\<close>

definition try_finally :: "'a io \<Rightarrow> unit io \<Rightarrow> 'a io" where
  "try_finally m fin w =
     (case m w of
        (Pending, w') \<Rightarrow> (Pending, w')
      | (r, w') \<Rightarrow>
          (case fin w' of
             (Value u, w'') \<Rightarrow> (r, w'')
           | (Thrown e, w'') \<Rightarrow> (Thrown e, w'')
           | (Pending, w'') \<Rightarrow> (Pending, w'')))"

definition record_call :: "action \<Rightarrow> world \<Rightarrow> world" where
  "record_call a w = w\<lparr>trace := trace w @ [a]\<rparr>"

text \<open>A call on the browser whose only observable result is success or a rejection.\<close>

definition call :: "action \<Rightarrow> exn option \<Rightarrow> unit io" where
  "call a fails w = ((case fails of None \<Rightarrow> Value () | Some e \<Rightarrow> Thrown e), record_call a w)"

section \<open>The in-page wait for images\<close>

text \<open>
  Both commands evaluate, inside the page, a promise whose executor enumerates
  \<open>document.images\<close>. The model keeps what the executor and its callbacks can change: the
  counter \<open>loaded\<close>, whether and when the promise was resolved, the timer and the
  listeners. Time is in milliseconds from the moment the executor runs. An image is
  given by its \<open>complete\<close> flag at that moment; an event is the time, the index of the
  image in \<open>document.images\<close> and the signal.
\<close>

datatype img_signal = Load | Error

type_synonym img_event = "nat \<times> nat \<times> img_signal"

datatype timer_state = NotSet | Due nat | Cleared | Fired

record wait_state =
  loaded :: nat
  resolved_at :: "nat option"
  timer :: timer_state
  listeners :: "(nat \<times> img_signal) list"

datatype command = Article | Paste

definition wait_init :: wait_state where
  "wait_init = \<lparr>loaded = 0, resolved_at = None, timer = NotSet, listeners = []\<rparr>"

text \<open>\<open>resolve(null)\<close> at time \<open>t\<close>: a promise keeps its first resolution.\<close>

definition resolve :: "nat \<Rightarrow> wait_state \<Rightarrow> wait_state" where
  "resolve t s = (if resolved_at s = None then s\<lparr>resolved_at := Some t\<rparr> else s)"

text \<open>\<open>clearTimeout(timeout)\<close>: cancels the timer if it has not fired yet.\<close>

definition clearTimeout :: "wait_state \<Rightarrow> wait_state" where
  "clearTimeout s = (case timer s of Due d \<Rightarrow> s\<lparr>timer := Cleared\<rparr> | _ \<Rightarrow> s)"

text \<open>\<open>setTimeout(() => resolve(null), ms)\<close> called at time 0.\<close>

definition setTimeout :: "nat \<Rightarrow> wait_state \<Rightarrow> wait_state" where
  "setTimeout ms s = s\<lparr>timer := Due ms\<rparr>"

text \<open>
  The body of \<open>imgs.forEach\<close>, the same in both commands: a complete image is counted, any
  other gets the handler on \<open>load\<close> and on \<open>error\<close>.
\<close>

definition each_img :: "wait_state \<Rightarrow> nat \<times> bool \<Rightarrow> wait_state" where
  "each_img s ic =
     (if snd ic then s\<lparr>loaded := loaded s + 1\<rparr>
      else s\<lparr>listeners := listeners s @ [(fst ic, Load), (fst ic, Error)]\<rparr>)"

definition forEach_img :: "bool list \<Rightarrow> wait_state \<Rightarrow> wait_state" where
  "forEach_img imgs s = foldl each_img s (zip [0 ..< length imgs] imgs)"

text \<open>
  The executor of the article command: empty list first, then the timer, the loop, and
  the check for a list that was complete from the start (which also clears the timer).
\<close>

definition article_executor :: "bool list \<Rightarrow> wait_state" where
  "article_executor imgs =
     (if imgs = [] then resolve 0 wait_init
      else
        let s1 = setTimeout 5000 wait_init;
            s2 = forEach_img imgs s1
        in if loaded s2 = length imgs then resolve 0 (clearTimeout s2) else s2)"

text \<open>
  The executor of the paste command: empty list first, then the loop, the check, and the
  timer last (set even when the promise is already resolved, never cleared).
\<close>

definition paste_executor :: "bool list \<Rightarrow> wait_state" where
  "paste_executor imgs =
     (if imgs = [] then resolve 0 wait_init
      else
        let s1 = forEach_img imgs wait_init;
            s2 = (if loaded s1 = length imgs then resolve 0 s1 else s1)
        in setTimeout 5000 s2)"

fun executor :: "command \<Rightarrow> bool list \<Rightarrow> wait_state" where
  "executor Article imgs = article_executor imgs"
| "executor Paste imgs = paste_executor imgs"

text \<open>
  The handler, called at time \<open>t\<close> with \<open>n\<close> images enumerated: \<open>loaded++\<close>, and when the
  counter equals \<open>n\<close> the promise is resolved (the article command clears the timer first).
\<close>

fun handler :: "command \<Rightarrow> nat \<Rightarrow> nat \<Rightarrow> wait_state \<Rightarrow> wait_state" where
  "handler Article n t s =
     (let s' = s\<lparr>loaded := loaded s + 1\<rparr>
      in if loaded s' = n then resolve t (clearTimeout s') else s')"
| "handler Paste n t s =
     (let s' = s\<lparr>loaded := loaded s + 1\<rparr>
      in if loaded s' = n then resolve t s' else s')"

text \<open>The timer callback runs once its time has come: \<open>() => resolve(null)\<close>.\<close>

definition fire_due :: "nat \<Rightarrow> wait_state \<Rightarrow> wait_state" where
  "fire_due now s =
     (case timer s of
        Due d \<Rightarrow> if d \<le> now then resolve d (s\<lparr>timer := Fired\<rparr>) else s
      | _ \<Rightarrow> s)"

text \<open>
  The event loop delivers one image event: a timer that is due runs first, then the
  handler, if a listener for that image and signal was added.
\<close>

definition deliver :: "command \<Rightarrow> nat \<Rightarrow> wait_state \<Rightarrow> img_event \<Rightarrow> wait_state" where
  "deliver p n s ev =
     (let s1 = fire_due (fst ev) s
      in if snd ev \<in> set (listeners s1) then handler p n (fst ev) s1 else s1)"

text \<open>After the last image event a timer still pending fires at its own time.\<close>

definition finish :: "wait_state \<Rightarrow> wait_state" where
  "finish s = (case timer s of Due d \<Rightarrow> resolve d (s\<lparr>timer := Fired\<rparr>) | _ \<Rightarrow> s)"

text \<open>
  When the promise of the image wait resolves: \<open>None\<close> if it never does.
\<close>

definition image_wait :: "command \<Rightarrow> bool list \<Rightarrow> img_event list \<Rightarrow> nat option" where
  "image_wait p imgs evs =
     resolved_at (finish (foldl (deliver p (length imgs)) (executor p imgs) evs))"

section \<open>The render-and-capture sessions\<close>

text \<open>
  What the browser does in one run, as far as the commands can observe it: whether the
  browser service is there, which calls reject, when an expression polled by
  \<open>waitForFunction\<close> first holds, the images of the loaded document with the events they
  deliver, and what the screenshot returns.
\<close>

record browser =
  puppeteer_present :: bool
  page_fails :: "exn option"
  setViewport_fails :: "exn option"
  setContent_fails :: "exn option"
  fonts_ready_fails :: "exn option"
  expr_true_at :: "string \<Rightarrow> nat option"
  images_complete :: "bool list"
  image_events :: "img_event list"
  evaluate_images_fails :: "exn option"
  screenshot_result :: "exn + buffer"

text \<open>The options of both commands: \<open>options.width\<close>, a number or absent.\<close>

record cmd_options =
  opt_width :: "jsnum option"

text \<open>\<open>ctx.puppeteer.page()\<close>: a page is open once the call has succeeded.\<close>

definition page_open :: "browser \<Rightarrow> unit io" where
  "page_open b w =
     (case page_fails b of
        None \<Rightarrow> (Value (), (record_call PageOpen w)\<lparr>open_pages := open_pages w + 1\<rparr>)
      | Some e \<Rightarrow> (Thrown e, record_call PageOpen w))"

text \<open>\<open>page.close()\<close>, called and not awaited.\<close>

definition page_close :: "unit io" where
  "page_close w = (Value (), (record_call PageClose w)\<lparr>open_pages := open_pages w - 1\<rparr>)"

definition setViewport :: "browser \<Rightarrow> viewport \<Rightarrow> unit io" where
  "setViewport b vp = call (SetViewport vp) (setViewport_fails b)"

definition setContent :: "browser \<Rightarrow> string \<Rightarrow> unit io" where
  "setContent b html = call (SetContent html) (setContent_fails b)"

text \<open>\<open>page.evaluate(() => document.fonts.ready)\<close>.\<close>

definition evaluate_fonts_ready :: "browser \<Rightarrow> unit io" where
  "evaluate_fonts_ready b = call EvaluateFontsReady (fonts_ready_fails b)"

text \<open>
  \<open>page.waitForFunction(expr, {timeout})\<close>: resolves when the expression holds within the
  timeout, and rejects with a timeout error otherwise. The call records the expression,
  the timeout and the time spent waiting.
\<close>

definition waitForFunction :: "browser \<Rightarrow> string \<Rightarrow> nat \<Rightarrow> unit io" where
  "waitForFunction b expr timeout w =
     (case expr_true_at b expr of
        None \<Rightarrow> (Thrown TimeoutError, record_call (WaitForFunction expr timeout timeout) w)
      | Some t \<Rightarrow>
          if t \<le> timeout then (Value (), record_call (WaitForFunction expr timeout t) w)
          else (Thrown TimeoutError, record_call (WaitForFunction expr timeout timeout) w))"

text \<open>
  \<open>page.evaluate\<close> of the image promise: the call can reject by itself; otherwise it
  settles when the promise in the page is resolved, and never if that never happens.
\<close>

definition evaluate_images :: "browser \<Rightarrow> command \<Rightarrow> unit io" where
  "evaluate_images b p w =
     (case evaluate_images_fails b of
        Some e \<Rightarrow> (Thrown e, record_call (EvaluateImages None) w)
      | None \<Rightarrow>
          (case image_wait p (images_complete b) (image_events b) of
             None \<Rightarrow> (Pending, record_call (EvaluateImages None) w)
           | Some t \<Rightarrow> (Value (), record_call (EvaluateImages (Some t)) w)))"

definition screenshot :: "browser \<Rightarrow> buffer io" where
  "screenshot b w =
     ((case screenshot_result b of Inl e \<Rightarrow> Thrown e | Inr buf \<Rightarrow> Value buf),
      record_call Screenshot w)"

definition logger_warn :: "log_text \<Rightarrow> exn \<Rightarrow> unit io" where
  "logger_warn t e = call (LoggerWarn t e) None"

definition logger_error :: "log_text \<Rightarrow> exn \<Rightarrow> unit io" where
  "logger_error t e = call (LoggerError t e) None"

text \<open>
  The article command from the check for the browser service on, with the HTML
  snapshot already generated.
\<close>

definition article_session :: "browser \<Rightarrow> cmd_options \<Rightarrow> string \<Rightarrow> reply io" where
  "article_session b options html =
     (if \<not> puppeteer_present b then ret (Text NoPuppeteer)
      else
        bind (page_open b) (\<lambda>_.
        try_finally
          (try_catch
            (let width = or_num (Number_of (opt_width options)) (Fin 960) in
             bind (setViewport b \<lparr>width = width, height = Fin 800, deviceScaleFactor = Fin 2\<rparr>) (\<lambda>_.
             bind (setContent b html) (\<lambda>_.
             bind (try_catch (evaluate_fonts_ready b) (\<lambda>e. logger_warn FontWaitFailed e)) (\<lambda>_.
             bind (try_catch (evaluate_images b Article) (\<lambda>e. ret ())) (\<lambda>_.
             bind (screenshot b) (\<lambda>buf.
             ret (Image buf ''image/png'')))))))
            (\<lambda>err. bind (logger_error ArticleShotFailed err) (\<lambda>_. ret (Text ArticleFailed))))
          page_close))"

text \<open>The paste command, from the same point on.\<close>

definition paste_session :: "browser \<Rightarrow> cmd_options \<Rightarrow> string \<Rightarrow> reply io" where
  "paste_session b options html =
     (if \<not> puppeteer_present b then ret (Text NoPuppeteer)
      else
        bind (page_open b) (\<lambda>_.
        try_finally
          (try_catch
            (let width = or_num (Number_of (opt_width options)) (Fin 960) in
             bind (setViewport b \<lparr>width = width, height = Fin 800, deviceScaleFactor = Fin 2\<rparr>) (\<lambda>_.
             bind (setContent b html) (\<lambda>_.
             bind (try_catch
                     (waitForFunction b ''window.__katex_render_done === true'' 20000)
                     (\<lambda>e. ret ())) (\<lambda>_.
             bind (try_catch (evaluate_images b Paste) (\<lambda>e. ret ())) (\<lambda>_.
             bind (screenshot b) (\<lambda>buf.
             ret (Image buf ''image/png'')))))))
            (\<lambda>err. bind (logger_error PasteShotFailed err) (\<lambda>_. ret (Text PasteFailed))))
          page_close))"

fun session :: "command \<Rightarrow> browser \<Rightarrow> cmd_options \<Rightarrow> string \<Rightarrow> reply io" where
  "session Article = article_session"
| "session Paste = paste_session"

section \<open>The markup renderer\<close>

text \<open>
  \<open>generateHtml\<close> builds a markdown engine with the options below, renders the body with
  it, and fills a fixed template. The engine (markdown-it with the KaTeX plugin) is a
  dependency, not part of the repository: its \<open>render\<close> is a parameter of the model, taking
  the options it was constructed with.
\<close>

record md_options =
  html :: bool
  breaks :: bool
  katex_allowFunctionInTextMode :: bool
  katex_strict :: bool

type_synonym markdown_engine = "md_options \<Rightarrow> string \<Rightarrow> string"

definition md_config :: md_options where
  "md_config =
     \<lparr>html = True, breaks = True, katex_allowFunctionInTextMode = True, katex_strict = False\<rparr>"

text \<open>
  \<open>md.utils.escapeHtml\<close>, the engine's escaping utility: each of \<open>&\<close>, \<open><\<close>, \<open>>\<close> and the
  double quote is replaced by its entity, every other character is kept.
\<close>

definition escape_char :: "char \<Rightarrow> string" where
  "escape_char c =
     (if c = CHR ''&'' then ''&amp;''
      else if c = CHR ''<'' then ''&lt;''
      else if c = CHR ''>'' then ''&gt;''
      else if c = CHR 0x22 then ''&quot;''
      else [c])"

definition escapeHtml :: "string \<Rightarrow> string" where
  "escapeHtml s = concat (map escape_char s)"

text \<open>The template literal up to the title: the document head with the two stylesheet links
  and the style sheet, and the opening of the card. Each line of the source is one element
  of the list; the comments of the style sheet are not ASCII and appear as their UTF-8 bytes.\<close>

definition template_head :: string where
  \<open>template_head =
     concat [
      ''<!doctype html>\<newline>'',
      ''<html>\<newline>'',
      ''<head>\<newline>'',
      ''  <meta charset="utf-8">\<newline>'',
      ''  <meta name="viewport" content="width=device-width,initial-scale=1">\<newline>'',
      ''  \<newline>'',
      ''  <link rel="stylesheet" href="https://cdn.jsdelivr.net/npm/highlight.js@11.7.0/styles/github.min.css">\<newline>'',
      ''  \<newline>'',
      ''  <link rel="stylesheet" href="https://cdn.jsdelivr.net/npm/katex@0.16.4/dist/katex.min.css">\<newline>'',
      ''\<newline>'',
      ''  <style>\<newline>'',
      ''    /* '' @ [CHR 0xE5, CHR 0x9F, CHR 0xBA, CHR 0xE7, CHR 0xA1, CHR 0x80, CHR 0xE9, CHR 0x87, CHR 0x8D, CHR 0xE7, CHR 0xBD, CHR 0xAE, CHR 0xE4, CHR 0xB8, CHR 0x8E, CHR 0xE5, CHR 0x8F, CHR 0x98, CHR 0xE9, CHR 0x87, CHR 0x8F] @ '' */\<newline>'',
      ''    :root {\<newline>'',
      ''      --bg-color: #f6f8fa;\<newline>'',
      ''      --card-bg: #ffffff;\<newline>'',
      ''      --text-primary: #24292f;\<newline>'',
      ''      --text-secondary: #57606a;\<newline>'',
      ''      --border-color: #d0d7de;\<newline>'',
      ''      --accent-color: #0969da;\<newline>'',
      ''    }\<newline>'',
      ''    \<newline>'',
      ''    body {\<newline>'',
      ''      margin: 0;\<newline>'',
      ''      padding: 40px;\<newline>'',
      ''      background-color: var(--bg-color);\<newline>'',
      ''      font-family: -apple-system, BlinkMacSystemFont, "Segoe UI", "Noto Sans", Helvetica, Arial, sans-serif, "Apple Color Emoji", "Segoe UI Emoji";\<newline>'',
      ''      color: var(--text-primary);\<newline>'',
      ''      line-height: 1.5;\<newline>'',
      ''    }\<newline>'',
      ''\<newline>'',
      ''    .container {\<newline>'',
      ''      max-width: 900px;\<newline>'',
      ''      margin: 0 auto;\<newline>'',
      ''    }\<newline>'',
      ''\<newline>'',
      ''    .card {\<newline>'',
      ''      background: var(--card-bg);\<newline>'',
      ''      border: 1px solid var(--border-color);\<newline>'',
      ''      border-radius: 6px;\<newline>'',
      ''      padding: 32px 40px;\<newline>'',
      ''      box-shadow: 0 3px 6px rgba(140, 149, 159, 0.15);\<newline>'',
      ''    }\<newline>'',
      ''\<newline>'',
      ''    /* '' @ [CHR 0xE5, CHR 0xA4, CHR 0xB4, CHR 0xE9, CHR 0x83, CHR 0xA8, CHR 0xE4, CHR 0xBF, CHR 0xA1, CHR 0xE6, CHR 0x81, CHR 0xAF] @ '' */\<newline>'',
      ''    header {\<newline>'',
      ''      border-bottom: 1px solid var(--border-color);\<newline>'',
      ''      padding-bottom: 20px;\<newline>'',
      ''      margin-bottom: 24px;\<newline>'',
      ''    }\<newline>'',
      ''    \<newline>'',
      ''    h1.title {\<newline>'',
      ''      margin: 0 0 8px 0;\<newline>'',
      ''      font-size: 28px;\<newline>'',
      ''      font-weight: 600;\<newline>'',
      ''    }\<newline>'',
      ''\<newline>'',
      ''    .meta {\<newline>'',
      ''      font-size: 14px;\<newline>'',
      ''      color: var(--text-secondary);\<newline>'',
      ''    }\<newline>'',
      ''\<newline>'',
      ''    /* Markdown '' @ [CHR 0xE5, CHR 0x86, CHR 0x85, CHR 0xE5, CHR 0xAE, CHR 0xB9, CHR 0xE7, CHR 0xBE, CHR 0x8E, CHR 0xE5, CHR 0x8C, CHR 0x96] @ '' ('' @ [CHR 0xE4, CHR 0xBB, CHR 0xBF] @ '' GitHub '' @ [CHR 0xE9, CHR 0xA3, CHR 0x8E, CHR 0xE6, CHR 0xA0, CHR 0xBC] @ '') */\<newline>'',
      ''    .markdown-body {\<newline>'',
      ''      font-size: 16px;\<newline>'',
      ''      line-height: 1.6;\<newline>'',
      ''    }\<newline>'',
      ''\<newline>'',
      ''    .markdown-body h1, .markdown-body h2, .markdown-body h3 {\<newline>'',
      ''      margin-top: 24px;\<newline>'',
      ''      margin-bottom: 16px;\<newline>'',
      ''      font-weight: 600;\<newline>'',
      ''      line-height: 1.25;\<newline>'',
      ''    }\<newline>'',
      ''    .markdown-body h1 { font-size: 2em; padding-bottom: .3em; border-bottom: 1px solid #d0d7de; }\<newline>'',
      ''    .markdown-body h2 { font-size: 1.5em; padding-bottom: .3em; border-bottom: 1px solid #d0d7de; }\<newline>'',
      ''    .markdown-body h3 { font-size: 1.25em; }\<newline>'',
      ''\<newline>'',
      ''    .markdown-body p { margin-bottom: 16px; }\<newline>'',
      ''    \<newline>'',
      ''    .markdown-body a { color: var(--accent-color); text-decoration: none; }\<newline>'',
      ''    .markdown-body a:hover { text-decoration: underline; }\<newline>'',
      ''\<newline>'',
      ''    .markdown-body blockquote {\<newline>'',
      ''      margin: 0 0 16px;\<newline>'',
      ''      padding: 0 1em;\<newline>'',
      ''      color: var(--text-secondary);\<newline>'',
      ''      border-left: 0.25em solid var(--border-color);\<newline>'',
      ''    }\<newline>'',
      ''\<newline>'',
      ''    .markdown-body ul, .markdown-body ol { padding-left: 2em; margin-bottom: 16px; }\<newline>'',
      ''\<newline>'',
      ''    /* '' @ [CHR 0xE8, CHR 0xA1, CHR 0xA8, CHR 0xE6, CHR 0xA0, CHR 0xBC, CHR 0xE6, CHR 0xA0, CHR 0xB7, CHR 0xE5, CHR 0xBC, CHR 0x8F] @ '' */\<newline>'',
      ''    .markdown-body table {\<newline>'',
      ''      border-spacing: 0;\<newline>'',
      ''      border-collapse: collapse;\<newline>'',
      ''      margin-bottom: 16px;\<newline>'',
      ''      width: max-content;\<newline>'',
      ''      max-width: 100%;\<newline>'',
      ''      overflow: auto;\<newline>'',
      ''      display: block;\<newline>'',
      ''    }\<newline>'',
      ''    .markdown-body table th, .markdown-body table td {\<newline>'',
      ''      padding: 6px 13px;\<newline>'',
      ''      border: 1px solid var(--border-color);\<newline>'',
      ''    }\<newline>'',
      ''    .markdown-body table tr { background-color: #fff; border-top: 1px solid #c6cbd1; }\<newline>'',
      ''    .markdown-body table tr:nth-child(2n) { background-color: #f6f8fa; }\<newline>'',
      ''\<newline>'',
      ''    /* '' @ [CHR 0xE4, CHR 0xBB, CHR 0xA3, CHR 0xE7, CHR 0xA0, CHR 0x81, CHR 0xE5, CHR 0x9D, CHR 0x97, CHR 0xE5, CHR 0xBE, CHR 0xAE, CHR 0xE8, CHR 0xB0, CHR 0x83] @ '' */\<newline>'',
      ''    .markdown-body pre {\<newline>'',
      ''      padding: 16px;\<newline>'',
      ''      overflow: auto;\<newline>'',
      ''      font-size: 85%;\<newline>'',
      ''      line-height: 1.45;\<newline>'',
      ''      background-color: #f6f8fa;\<newline>'',
      ''      border-radius: 6px;\<newline>'',
      ''    }\<newline>'',
      ''    .markdown-body code {\<newline>'',
      ''      padding: 0.2em 0.4em;\<newline>'',
      ''      margin: 0;\<newline>'',
      ''      font-size: 85%;\<newline>'',
      ''      background-color: rgba(175,184,193,0.2);\<newline>'',
      ''      border-radius: 6px;\<newline>'',
      ''      font-family: ui-monospace, SFMono-Regular, "SF Mono", Menlo, Consolas, "Liberation Mono", monospace;\<newline>'',
      ''    }\<newline>'',
      ''    .markdown-body pre code {\<newline>'',
      ''      padding: 0;\<newline>'',
      ''      background-color: transparent;\<newline>'',
      ''    }\<newline>'',
      ''    \<newline>'',
      ''    /* '' @ [CHR 0xE5, CHR 0x9B, CHR 0xBE, CHR 0xE7, CHR 0x89, CHR 0x87, CHR 0xE8, CHR 0x87, CHR 0xAA, CHR 0xE9, CHR 0x80, CHR 0x82, CHR 0xE5, CHR 0xBA, CHR 0x94] @ '' */\<newline>'',
      ''    .markdown-body img {\<newline>'',
      ''      max-width: 100%;\<newline>'',
      ''      box-sizing: content-box;\<newline>'',
      ''      background-color: #fff;\<newline>'',
      ''    }\<newline>'',
      ''    \<newline>'',
      ''    /* KaTeX '' @ [CHR 0xE5, CHR 0xAD, CHR 0x97, CHR 0xE4, CHR 0xBD, CHR 0x93, CHR 0xE4, CHR 0xBF, CHR 0xAE, CHR 0xE5, CHR 0xA4, CHR 0x8D] @ '' */\<newline>'',
      ''    .katex { font-size: 1.1em; }\<newline>'',
      ''  </style>\<newline>'',
      ''</head>\<newline>'',
      ''<body>\<newline>'',
      ''  <div class="container">\<newline>'',
      ''    <div class="card">\<newline>'',
      ''      <header>\<newline>'',
      ''        <h1 class="title">'']\<close>

text \<open>Between the title and the author line.\<close>

definition template_mid1 :: string where
  \<open>template_mid1 =
     concat [
      ''</h1>\<newline>'',
      ''        <div class="meta">'']\<close>

text \<open>Between the author line and the rendered body.\<close>

definition template_mid2 :: string where
  \<open>template_mid2 =
     concat [
      ''</div>\<newline>'',
      ''      </header>\<newline>'',
      ''      <article class="markdown-body">\<newline>'',
      ''        '']\<close>

text \<open>After the rendered body.\<close>

definition template_tail :: string where
  \<open>template_tail =
     concat [
      ''\<newline>'',
      ''      </article>\<newline>'',
      ''    </div>\<newline>'',
      ''  </div>\<newline>'',
      ''</body>\<newline>'',
      ''</html>'']\<close>

definition generateHtml :: "markdown_engine \<Rightarrow> string \<Rightarrow> string \<Rightarrow> string \<Rightarrow> string" where
  "generateHtml md title authorInfo markdownContent =
     (let renderedBody = md md_config markdownContent
      in template_head @ escapeHtml title @ template_mid1 @ escapeHtml authorInfo
         @ template_mid2 @ renderedBody @ template_tail)"

section \<open>Predicates and sample runs used in the proofs\<close>

text \<open>The promise is resolved by the ceiling, or the timer that will resolve it is pending.\<close>

definition within_ceiling :: "wait_state \<Rightarrow> bool" where
  "within_ceiling s = (case resolved_at s of Some t \<Rightarrow> t \<le> 5000 | None \<Rightarrow> timer s = Due 5000)"

text \<open>The command changes nothing of the world but the trace, which it extends by actions that all satisfy \<open>P\<close>.\<close>

definition emits :: "(action \<Rightarrow> bool) \<Rightarrow> 'a io \<Rightarrow> bool" where
  "emits P m = (\<forall>w. \<exists>r acts. m w = (r, w\<lparr>trace := trace w @ acts\<rparr>) \<and> list_all P acts)"

text \<open>The command never ends on a promise that does not settle.\<close>

definition settles :: "'a io \<Rightarrow> bool" where
  "settles m = (\<forall>w. fst (m w) \<noteq> Pending)"

text \<open>The command never ends in a throw.\<close>

definition never_throws :: "'a io \<Rightarrow> bool" where
  "never_throws m = (\<forall>w e. fst (m w) \<noteq> Thrown e)"

text \<open>A run in which every call succeeds, the document has no image and the polled expression never holds; the screenshot is four bytes.\<close>

definition calm_browser :: browser where
  "calm_browser =
     \<lparr>puppeteer_present = True, page_fails = None, setViewport_fails = None,
      setContent_fails = None, fonts_ready_fails = None, expr_true_at = (\<lambda>_. None),
      images_complete = [], image_events = [], evaluate_images_fails = None,
      screenshot_result = Inr [137, 80, 78, 71]\<rparr>"

text \<open>A run in which the font wait times out, the only image never completes and the screenshot fails.\<close>

definition rough_browser :: browser where
  "rough_browser =
     \<lparr>puppeteer_present = True, page_fails = None, setViewport_fails = None,
      setContent_fails = None, fonts_ready_fails = Some TimeoutError, expr_true_at = (\<lambda>_. None),
      images_complete = [False], image_events = [], evaluate_images_fails = None,
      screenshot_result = Inl PageError\<rparr>"

text \<open>
  What an HTML parser reads back from text in which the four entities of \<open>escapeHtml\<close>
  stand for their characters. It is used to say that escaping loses nothing of a title.
\<close>

fun decode_entities :: "string \<Rightarrow> string" where
  "decode_entities [] = []"
| "decode_entities (c # cs) =
     (if c = CHR ''&'' then
        (if prefix ''amp;'' cs then CHR ''&'' # decode_entities (drop 4 cs)
         else if prefix ''lt;'' cs then CHR ''<'' # decode_entities (drop 3 cs)
         else if prefix ''gt;'' cs then CHR ''>'' # decode_entities (drop 3 cs)
         else if prefix ''quot;'' cs then CHR 0x22 # decode_entities (drop 5 cs)
         else c # decode_entities cs)
      else c # decode_entities cs)"

text \<open>
  An engine for a body of one line of text with inline tags: the line becomes one
  paragraph, as it is when the option \<open>html\<close> is on and escaped when it is off. On the
  body \<open><b>x</b>\<close> this is what markdown-it produces under either setting.
\<close>

definition paragraph_engine :: markdown_engine where
  "paragraph_engine opts src =
     ''<p>'' @ (if html opts then src else escapeHtml src) @ ''</p>\<newline>''"

text \<open>A response of the content service that reports a missing record.\<close>

definition not_found_envelope :: json where
  "not_found_envelope =
     JObj [(''code'', JNum (Fin 404)), (''message'', JStr ''not found''), (''data'', JNull)]"

section \<open>The image wait: resolution by the ceiling, the race, the signals\<close>

lemma resolve_simps:
  "resolved_at (resolve t s) = (case resolved_at s of None \<Rightarrow> Some t | Some u \<Rightarrow> Some u)"
  "timer (resolve t s) = timer s"
  "listeners (resolve t s) = listeners s"
  "loaded (resolve t s) = loaded s"
  by (auto simp: resolve_def split: option.splits)

lemma clearTimeout_simps:
  "resolved_at (clearTimeout s) = resolved_at s"
  "listeners (clearTimeout s) = listeners s"
  "loaded (clearTimeout s) = loaded s"
  by (auto simp: clearTimeout_def split: timer_state.splits)

lemma foldl_each_img_frame:
  "timer (foldl each_img s xs) = timer s"
  "resolved_at (foldl each_img s xs) = resolved_at s"
  by (induction xs arbitrary: s) (auto simp: each_img_def)

lemma foldl_each_img_loaded:
  "loaded (foldl each_img s xs) = loaded s + length (filter snd xs)"
  by (induction xs arbitrary: s) (auto simp: each_img_def)

lemma each_img_listeners:
  "set (listeners (each_img s (i, c))) =
     set (listeners s) \<union> (if c then {} else {(i, Load), (i, Error)})"
  by (auto simp: each_img_def)

lemma foldl_each_img_listeners:
  "set (listeners (foldl each_img s xs)) =
     set (listeners s) \<union> {(i, sg) | i sg. (i, False) \<in> set xs}"
proof (induction xs arbitrary: s)
  case Nil
  then show ?case by simp
next
  case (Cons x xs)
  obtain i c where x: "x = (i, c)" by (cases x)
  have sg: "\<And>sg. sg = Load \<or> sg = Error" by (metis img_signal.exhaust)
  have "set (listeners (foldl each_img s (x # xs))) =
          set (listeners (each_img s x)) \<union> {(i, sg) | i sg. (i, False) \<in> set xs}"
    by (simp add: Cons.IH)
  also have "\<dots> = set (listeners s) \<union> {(i, sg) | i sg. (i, False) \<in> set (x # xs)}"
    unfolding x each_img_listeners using sg by auto
  finally show ?case .
qed

lemma forEach_img_frame:
  "timer (forEach_img imgs s) = timer s"
  "resolved_at (forEach_img imgs s) = resolved_at s"
  by (simp_all add: forEach_img_def foldl_each_img_frame)

lemma executor_within_ceiling: "within_ceiling (executor p imgs)"
  by (cases p)
     (auto simp: within_ceiling_def article_executor_def paste_executor_def Let_def
        resolve_simps clearTimeout_simps forEach_img_frame setTimeout_def wait_init_def
        split: option.splits)

lemma fire_due_within_ceiling: "within_ceiling s \<Longrightarrow> within_ceiling (fire_due now s)"
  by (auto simp: within_ceiling_def fire_due_def resolve_simps split: option.splits timer_state.splits)

lemma fire_due_pending:
  "resolved_at (fire_due now s) = None \<Longrightarrow> timer s = Due 5000 \<Longrightarrow>
   timer (fire_due now s) = Due 5000 \<and> now < 5000"
  by (auto simp: fire_due_def resolve_simps split: option.splits timer_state.splits if_splits)

lemma handler_within_ceiling:
  "within_ceiling s \<Longrightarrow> (resolved_at s = None \<Longrightarrow> t \<le> 5000) \<Longrightarrow> within_ceiling (handler p n t s)"
  by (cases p; cases "resolved_at s")
     (simp_all add: within_ceiling_def Let_def resolve_simps clearTimeout_simps)

lemma deliver_within_ceiling:
  assumes "within_ceiling s"
  shows "within_ceiling (deliver p n s ev)"
proof -
  let ?s1 = "fire_due (fst ev) s"
  have s1: "within_ceiling ?s1" using assms by (rule fire_due_within_ceiling)
  have "resolved_at ?s1 = None \<Longrightarrow> fst ev \<le> 5000"
  proof -
    assume n: "resolved_at ?s1 = None"
    then have "resolved_at s = None"
      by (auto simp: fire_due_def resolve_simps split: timer_state.splits if_splits option.splits)
    with assms have "timer s = Due 5000" by (simp add: within_ceiling_def)
    with n fire_due_pending [of "fst ev" s] show ?thesis by simp
  qed
  with s1 show ?thesis
    by (simp add: deliver_def Let_def handler_within_ceiling)
qed

lemma foldl_deliver_within_ceiling:
  "within_ceiling s \<Longrightarrow> within_ceiling (foldl (deliver p n) s evs)"
  by (induction evs arbitrary: s) (simp_all add: deliver_within_ceiling)

lemma finish_resolved:
  "within_ceiling s \<Longrightarrow> \<exists>t \<le> 5000. resolved_at (finish s) = Some t"
  by (auto simp: within_ceiling_def finish_def resolve_simps split: option.splits timer_state.splits)

lemma image_wait_resolves: "\<exists>t \<le> 5000. image_wait p imgs evs = Some t"
  unfolding image_wait_def
  by (intro finish_resolved foldl_deliver_within_ceiling executor_within_ceiling)

lemma timer_clearTimeout:
  "timer (clearTimeout s) = (case timer s of Due d \<Rightarrow> Cleared | x \<Rightarrow> x)"
  by (auto simp: clearTimeout_def split: timer_state.splits)

lemma fire_due_listeners: "listeners (fire_due now s) = listeners s"
  by (auto simp: fire_due_def resolve_simps split: timer_state.splits)

lemma handler_listeners: "listeners (handler p n t s) = listeners s"
  by (cases p) (simp_all add: Let_def resolve_simps clearTimeout_simps)

lemma deliver_listeners: "listeners (deliver p n s ev) = listeners s"
  by (simp add: deliver_def Let_def handler_listeners fire_due_listeners)

lemma fire_due_resolved: "resolved_at s = Some t \<Longrightarrow> resolved_at (fire_due now s) = Some t"
  by (auto simp: fire_due_def resolve_simps split: timer_state.splits)

lemma handler_resolved: "resolved_at s = Some t \<Longrightarrow> resolved_at (handler p n u s) = Some t"
  by (cases p) (simp_all add: Let_def resolve_simps clearTimeout_simps)

lemma deliver_resolved: "resolved_at s = Some t \<Longrightarrow> resolved_at (deliver p n s ev) = Some t"
  by (simp add: deliver_def Let_def handler_resolved fire_due_resolved)

lemma foldl_deliver_resolved:
  "resolved_at s = Some t \<Longrightarrow> resolved_at (foldl (deliver p n) s evs) = Some t"
  by (induction evs arbitrary: s) (simp_all add: deliver_resolved)

lemma finish_keeps: "resolved_at s = Some t \<Longrightarrow> resolved_at (finish s) = Some t"
  by (auto simp: finish_def resolve_simps split: timer_state.splits)

lemma run_resolved:
  "resolved_at s = Some t \<Longrightarrow> resolved_at (finish (foldl (deliver p n) s evs)) = Some t"
  by (simp add: finish_keeps foldl_deliver_resolved)

lemma deliver_late:
  assumes "resolved_at s = None" "timer s = Due 5000" "5000 \<le> fst ev"
  shows "resolved_at (deliver p n s ev) = Some 5000"
proof -
  have "resolved_at (fire_due (fst ev) s) = Some 5000"
    using assms by (simp add: fire_due_def resolve_simps)
  then show ?thesis
    by (simp add: deliver_def Let_def handler_resolved)
qed

lemma deliver_last:
  assumes "resolved_at s = None" "timer s = Due 5000" "fst ev < 5000"
    and "snd ev \<in> set (listeners s)" "loaded s + 1 = n"
  shows "resolved_at (deliver p n s ev) = Some (fst ev)"
proof -
  have "fire_due (fst ev) s = s"
    using assms by (simp add: fire_due_def)
  then show ?thesis
    using assms by (cases p) (simp_all add: deliver_def Let_def resolve_simps clearTimeout_simps)
qed

lemma deliver_counts:
  assumes "resolved_at s = None" "timer s = Due 5000" "fst ev < 5000"
    and "snd ev \<in> set (listeners s)" "loaded s + 1 \<noteq> n"
  shows "deliver p n s ev = s\<lparr>loaded := loaded s + 1\<rparr>"
proof -
  have "fire_due (fst ev) s = s"
    using assms by (simp add: fire_due_def)
  then show ?thesis
    using assms by (cases p) (simp_all add: deliver_def Let_def)
qed

lemma race_run:
  assumes "resolved_at s = None" and "timer s = Due 5000"
    and "loaded s + length evs = n" and "evs \<noteq> []"
    and "sorted (map fst evs)"
    and "\<forall>ev \<in> set evs. snd ev \<in> set (listeners s)"
  shows "resolved_at (finish (foldl (deliver p n) s evs)) = Some (min 5000 (fst (last evs)))"
  using assms
proof (induction evs arbitrary: s)
  case Nil
  then show ?case by simp
next
  case (Cons ev evs)
  show ?case
  proof (cases "5000 \<le> fst ev")
    case True
    have "fst ev \<le> fst (last (ev # evs))"
      using Cons.prems(5) by (cases evs) auto
    with True have m: "min 5000 (fst (last (ev # evs))) = 5000" by simp
    have "resolved_at (deliver p n s ev) = Some 5000"
      using Cons.prems(1,2) True by (rule deliver_late)
    then show ?thesis
      unfolding m by (simp add: run_resolved)
  next
    case False
    then have lt: "fst ev < 5000" by simp
    have li: "snd ev \<in> set (listeners s)" using Cons.prems(6) by simp
    show ?thesis
    proof (cases evs)
      case Nil
      then have "loaded s + 1 = n" using Cons.prems(3) by simp
      with Cons.prems(1,2) lt li have "resolved_at (deliver p n s ev) = Some (fst ev)"
        by (intro deliver_last)
      with Nil lt show ?thesis by (simp add: finish_keeps)
    next
      case (Cons e' es)
      then have ne: "loaded s + 1 \<noteq> n" using Cons.prems(3) by simp
      let ?s' = "s\<lparr>loaded := loaded s + 1\<rparr>"
      have d: "deliver p n s ev = ?s'"
        using Cons.prems(1,2) lt li ne by (intro deliver_counts)
      have "resolved_at (finish (foldl (deliver p n) ?s' evs)) = Some (min 5000 (fst (last evs)))"
        using Cons.prems Cons by (intro Cons.IH) auto
      with d Cons show ?thesis by simp
    qed
  qed
qed

lemma filter_snd_zip:
  "length xs = length ys \<Longrightarrow> length (filter snd (zip xs ys)) = length (filter id ys)"
proof (induction xs ys rule: list_induct2)
  case Nil
  then show ?case by simp
next
  case (Cons x xs y ys)
  then show ?case by simp
qed

lemma forEach_img_loaded:
  "loaded (forEach_img imgs s) = loaded s + length (filter id imgs)"
  by (simp add: forEach_img_def foldl_each_img_loaded filter_snd_zip)

lemma forEach_img_listeners:
  "set (listeners (forEach_img imgs s)) =
     set (listeners s) \<union> {(i, sg) | i sg. i < length imgs \<and> \<not> imgs ! i}"
proof -
  have "\<And>i. (i, False) \<in> set (zip [0 ..< length imgs] imgs) \<longleftrightarrow> i < length imgs \<and> \<not> imgs ! i"
    by (force simp: in_set_zip)
  then show ?thesis
    by (simp add: forEach_img_def foldl_each_img_listeners)
qed

lemma filter_id_Not: "length (filter id imgs) + length (filter Not imgs) = length imgs"
  by (induction imgs) auto

lemma executor_pending:
  assumes "filter Not imgs \<noteq> []"
  shows "resolved_at (executor p imgs) = None"
    and "timer (executor p imgs) = Due 5000"
    and "loaded (executor p imgs) + length (filter Not imgs) = length imgs"
    and "set (listeners (executor p imgs)) = {(i, sg) | i sg. i < length imgs \<and> \<not> imgs ! i}"
proof -
  from assms have ne: "imgs \<noteq> []" by auto
  have "length (filter Not imgs) > 0" using assms by simp
  with filter_id_Not [of imgs] have lt: "length (filter id imgs) \<noteq> length imgs" by linarith
  show "resolved_at (executor p imgs) = None"
    using ne lt
    by (cases p)
       (simp_all add: article_executor_def paste_executor_def Let_def forEach_img_loaded
          forEach_img_frame setTimeout_def wait_init_def)
  show "timer (executor p imgs) = Due 5000"
    using ne lt
    by (cases p)
       (simp_all add: article_executor_def paste_executor_def Let_def forEach_img_loaded
          forEach_img_frame setTimeout_def wait_init_def)
  show "loaded (executor p imgs) + length (filter Not imgs) = length imgs"
    using ne lt filter_id_Not [of imgs]
    by (cases p)
       (simp_all add: article_executor_def paste_executor_def Let_def forEach_img_loaded
          forEach_img_frame setTimeout_def wait_init_def)
  show "set (listeners (executor p imgs)) = {(i, sg) | i sg. i < length imgs \<and> \<not> imgs ! i}"
    using ne lt
    by (cases p)
       (simp_all add: article_executor_def paste_executor_def Let_def forEach_img_loaded
          forEach_img_listeners setTimeout_def wait_init_def)
qed

lemma image_wait_last_event:
  assumes "sorted (map fst evs)"
    and "\<forall>ev \<in> set evs. fst (snd ev) < length imgs \<and> \<not> imgs ! fst (snd ev)"
    and "length evs = length (filter Not imgs)" and "evs \<noteq> []"
  shows "image_wait p imgs evs = Some (min 5000 (fst (last evs)))"
proof -
  from assms(3,4) have pend: "filter Not imgs \<noteq> []" by auto
  note ex = executor_pending [OF pend, of p]
  have "\<forall>ev \<in> set evs. snd ev \<in> set (listeners (executor p imgs))"
    unfolding ex(4) using assms(2) by (auto simp: prod_eq_iff)
  moreover have "loaded (executor p imgs) + length evs = length imgs"
    using ex(3) assms(3) by simp
  ultimately show ?thesis
    unfolding image_wait_def using ex(1,2) assms(1,4) by (intro race_run)
qed

lemma executor_listeners:
  "set (listeners (executor p imgs)) = {(i, sg) | i sg. i < length imgs \<and> \<not> imgs ! i}"
  by (cases p)
     (simp_all add: article_executor_def paste_executor_def Let_def resolve_simps
        clearTimeout_simps forEach_img_listeners setTimeout_def wait_init_def)

lemma deliver_relabel:
  assumes "\<And>sg sg'. (i, sg) \<in> set (listeners s) \<Longrightarrow> (i, sg') \<in> set (listeners s)"
  shows "deliver p n s (t, i, sg1) = deliver p n s (t, i, sg2)"
proof -
  have "(i, sg1) \<in> set (listeners s) \<longleftrightarrow> (i, sg2) \<in> set (listeners s)"
    using assms by blast
  then show ?thesis
    by (simp add: deliver_def Let_def fire_due_listeners)
qed

lemma foldl_deliver_relabel:
  assumes "\<And>i sg sg'. (i, sg) \<in> set (listeners s) \<Longrightarrow> (i, sg') \<in> set (listeners s)"
  shows "foldl (deliver p n) s (map (\<lambda>(t, i, sg). (t, i, g t i sg)) evs) = foldl (deliver p n) s evs"
  using assms
proof (induction evs arbitrary: s)
  case Nil
  then show ?case by simp
next
  case (Cons ev evs)
  obtain t i sg where ev: "ev = (t, i, sg)" by (cases ev)
  have d: "deliver p n s (t, i, g t i sg) = deliver p n s (t, i, sg)"
    using Cons.prems by (intro deliver_relabel) blast
  have "foldl (deliver p n) (deliver p n s ev) (map (\<lambda>(t, i, sg). (t, i, g t i sg)) evs)
          = foldl (deliver p n) (deliver p n s ev) evs"
    using Cons.prems by (intro Cons.IH) (simp add: deliver_listeners)
  with d ev show ?case by simp
qed

lemma image_wait_relabel:
  "image_wait p imgs (map (\<lambda>(t, i, sg). (t, i, g t i sg)) evs) = image_wait p imgs evs"
  unfolding image_wait_def
  by (subst foldl_deliver_relabel) (auto simp: executor_listeners)

lemma image_wait_all_complete:
  assumes "filter Not imgs = []"
  shows "image_wait p imgs evs = Some 0"
proof -
  have "length (filter id imgs) = length imgs"
    using filter_id_Not [of imgs] assms by simp
  then have "resolved_at (executor p imgs) = Some 0"
    by (cases p)
       (simp_all add: article_executor_def paste_executor_def Let_def resolve_simps
          clearTimeout_simps forEach_img_loaded forEach_img_frame setTimeout_def wait_init_def)
  then show ?thesis
    by (simp add: image_wait_def run_resolved)
qed

section \<open>Traces of commands\<close>

lemma emitsI:
  "(\<And>w. \<exists>r acts. m w = (r, w\<lparr>trace := trace w @ acts\<rparr>) \<and> list_all P acts) \<Longrightarrow> emits P m"
  by (simp add: emits_def)

lemma emitsD:
  "emits P m \<Longrightarrow> \<exists>r acts. m w = (r, w\<lparr>trace := trace w @ acts\<rparr>) \<and> list_all P acts"
  by (simp add: emits_def)

lemma emits_ret: "emits P (ret x)"
proof (rule emitsI)
  fix w :: world
  have "ret x w = (Value x, w\<lparr>trace := trace w @ []\<rparr>) \<and> list_all P []"
    by (simp add: ret_def)
  then show "\<exists>r acts. ret x w = (r, w\<lparr>trace := trace w @ acts\<rparr>) \<and> list_all P acts"
    by blast
qed

lemma emits_one:
  assumes "\<And>w. \<exists>r. m w = (r, record_call a w)" and "P a"
  shows "emits P m"
proof (rule emitsI)
  fix w :: world
  from assms(1) obtain r where "m w = (r, record_call a w)" by blast
  then have "m w = (r, w\<lparr>trace := trace w @ [a]\<rparr>) \<and> list_all P [a]"
    using assms(2) by (simp add: record_call_def)
  then show "\<exists>r acts. m w = (r, w\<lparr>trace := trace w @ acts\<rparr>) \<and> list_all P acts"
    by blast
qed

lemma emits_call: "P a \<Longrightarrow> emits P (call a f)"
  by (rule emits_one [where a = a]) (simp_all add: call_def)

lemma emits_screenshot: "P Screenshot \<Longrightarrow> emits P (screenshot b)"
  by (rule emits_one [where a = Screenshot]) (simp_all add: screenshot_def)

lemma emits_waitForFunction:
  assumes "\<And>t. P (WaitForFunction expr tmo t)"
  shows "emits P (waitForFunction b expr tmo)"
proof (rule emitsI)
  fix w :: world
  have "\<exists>r t. waitForFunction b expr tmo w = (r, record_call (WaitForFunction expr tmo t) w)"
    by (auto simp: waitForFunction_def split: option.splits)
  then obtain r t where "waitForFunction b expr tmo w = (r, record_call (WaitForFunction expr tmo t) w)"
    by blast
  then have "waitForFunction b expr tmo w = (r, w\<lparr>trace := trace w @ [WaitForFunction expr tmo t]\<rparr>)
      \<and> list_all P [WaitForFunction expr tmo t]"
    using assms by (simp add: record_call_def)
  then show "\<exists>r acts. waitForFunction b expr tmo w = (r, w\<lparr>trace := trace w @ acts\<rparr>) \<and> list_all P acts"
    by blast
qed

lemma emits_evaluate_images:
  assumes "\<And>t. P (EvaluateImages t)"
  shows "emits P (evaluate_images b p)"
proof (rule emitsI)
  fix w :: world
  have "\<exists>r t. evaluate_images b p w = (r, record_call (EvaluateImages t) w)"
    by (auto simp: evaluate_images_def split: option.splits)
  then obtain r t where "evaluate_images b p w = (r, record_call (EvaluateImages t) w)"
    by blast
  then have "evaluate_images b p w = (r, w\<lparr>trace := trace w @ [EvaluateImages t]\<rparr>)
      \<and> list_all P [EvaluateImages t]"
    using assms by (simp add: record_call_def)
  then show "\<exists>r acts. evaluate_images b p w = (r, w\<lparr>trace := trace w @ acts\<rparr>) \<and> list_all P acts"
    by blast
qed

lemma emits_bind:
  assumes "emits P m" and "\<And>x. emits P (f x)"
  shows "emits P (bind m f)"
proof (rule emitsI)
  fix w :: world
  from emitsD [OF assms(1), of w] obtain r acts
    where m: "m w = (r, w\<lparr>trace := trace w @ acts\<rparr>)" and a: "list_all P acts" by blast
  show "\<exists>r acts. bind m f w = (r, w\<lparr>trace := trace w @ acts\<rparr>) \<and> list_all P acts"
  proof (cases r)
    case (Value x)
    from emitsD [OF assms(2), of x "w\<lparr>trace := trace w @ acts\<rparr>"] obtain r' acts'
      where f: "f x (w\<lparr>trace := trace w @ acts\<rparr>) = (r', w\<lparr>trace := trace w @ acts @ acts'\<rparr>)"
        and a': "list_all P acts'" by auto
    have "bind m f w = (r', w\<lparr>trace := trace w @ (acts @ acts')\<rparr>) \<and> list_all P (acts @ acts')"
      using m f a a' Value by (simp add: bind_def)
    then show ?thesis by blast
  next
    case (Thrown e)
    then have "bind m f w = (Thrown e, w\<lparr>trace := trace w @ acts\<rparr>)"
      using m by (simp add: bind_def)
    with a show ?thesis by blast
  next
    case Pending
    then have "bind m f w = (Pending, w\<lparr>trace := trace w @ acts\<rparr>)"
      using m by (simp add: bind_def)
    with a show ?thesis by blast
  qed
qed

lemma emits_try_catch:
  assumes "emits P m" and "\<And>e. emits P (h e)"
  shows "emits P (try_catch m h)"
proof (rule emitsI)
  fix w :: world
  from emitsD [OF assms(1), of w] obtain r acts
    where m: "m w = (r, w\<lparr>trace := trace w @ acts\<rparr>)" and a: "list_all P acts" by blast
  show "\<exists>r acts. try_catch m h w = (r, w\<lparr>trace := trace w @ acts\<rparr>) \<and> list_all P acts"
  proof (cases r)
    case (Thrown e)
    from emitsD [OF assms(2), of e "w\<lparr>trace := trace w @ acts\<rparr>"] obtain r' acts'
      where f: "h e (w\<lparr>trace := trace w @ acts\<rparr>) = (r', w\<lparr>trace := trace w @ acts @ acts'\<rparr>)"
        and a': "list_all P acts'" by auto
    have "try_catch m h w = (r', w\<lparr>trace := trace w @ (acts @ acts')\<rparr>) \<and> list_all P (acts @ acts')"
      using m f a a' Thrown by (simp add: try_catch_def)
    then show ?thesis by blast
  next
    case (Value x)
    then have "try_catch m h w = (Value x, w\<lparr>trace := trace w @ acts\<rparr>)"
      using m by (simp add: try_catch_def)
    with a show ?thesis by blast
  next
    case Pending
    then have "try_catch m h w = (Pending, w\<lparr>trace := trace w @ acts\<rparr>)"
      using m by (simp add: try_catch_def)
    with a show ?thesis by blast
  qed
qed

lemma settles_ret: "settles (ret x)"
  by (simp add: settles_def ret_def)

lemma settles_call: "settles (call a f)"
  by (simp add: settles_def call_def split: option.splits)

lemma settles_screenshot: "settles (screenshot b)"
  by (simp add: settles_def screenshot_def split: sum.splits)

lemma settles_waitForFunction: "settles (waitForFunction b expr tmo)"
  by (simp add: settles_def waitForFunction_def split: option.splits)

lemma settles_evaluate_images: "settles (evaluate_images b p)"
proof -
  have "\<And>w. fst (evaluate_images b p w) \<noteq> Pending"
    using image_wait_resolves [of p "images_complete b" "image_events b"]
    by (auto simp: evaluate_images_def split: option.splits)
  then show ?thesis by (simp add: settles_def)
qed

lemma settles_bind:
  assumes "settles m" and "\<And>x. settles (f x)"
  shows "settles (bind m f)"
  unfolding settles_def
proof (intro allI)
  fix w
  obtain r w' where m: "m w = (r, w')" by (cases "m w")
  with assms(1) have "r \<noteq> Pending" by (auto simp: settles_def dest: spec [of _ w])
  with assms(2) m show "fst (bind m f w) \<noteq> Pending"
    by (cases r) (auto simp: bind_def settles_def)
qed

lemma settles_try_catch:
  assumes "settles m" and "\<And>e. settles (h e)"
  shows "settles (try_catch m h)"
  unfolding settles_def
proof (intro allI)
  fix w
  obtain r w' where m: "m w = (r, w')" by (cases "m w")
  with assms(1) have "r \<noteq> Pending" by (auto simp: settles_def dest: spec [of _ w])
  with assms(2) m show "fst (try_catch m h w) \<noteq> Pending"
    by (cases r) (auto simp: try_catch_def settles_def)
qed

lemma never_throws_ret: "never_throws (ret x)"
  by (simp add: never_throws_def ret_def)

lemma never_throws_call: "never_throws (call a None)"
  by (simp add: never_throws_def call_def)

lemma never_throws_bind:
  assumes "never_throws m" and "\<And>x. never_throws (f x)"
  shows "never_throws (bind m f)"
  unfolding never_throws_def
proof (intro allI)
  fix w e
  obtain r w' where m: "m w = (r, w')" by (cases "m w")
  with assms(1) have "\<And>e. r \<noteq> Thrown e" by (auto simp: never_throws_def dest: spec [of _ w])
  with assms(2) m show "fst (bind m f w) \<noteq> Thrown e"
    by (cases r) (auto simp: bind_def never_throws_def)
qed

lemma never_throws_try_catch:
  assumes "\<And>e. never_throws (h e)"
  shows "never_throws (try_catch m h)"
  unfolding never_throws_def
proof (intro allI)
  fix w e
  obtain r w' where m: "m w = (r, w')" by (cases "m w")
  with assms show "fst (try_catch m h w) \<noteq> Thrown e"
    by (cases r) (auto simp: try_catch_def never_throws_def)
qed

lemma open_close_shape:
  assumes "page_fails b = None" and "emits P body" and "settles body" and "never_throws body"
  shows "\<exists>reply acts.
           bind (page_open b) (\<lambda>_. try_finally body page_close) w
             = (Value reply, w\<lparr>trace := trace w @ [PageOpen] @ acts @ [PageClose]\<rparr>)
           \<and> list_all P acts"
proof -
  let ?w1 = "(record_call PageOpen w)\<lparr>open_pages := open_pages w + 1\<rparr>"
  have o: "page_open b w = (Value (), ?w1)"
    using assms(1) by (simp add: page_open_def)
  from emitsD [OF assms(2), of ?w1] obtain r acts
    where b: "body ?w1 = (r, ?w1\<lparr>trace := trace ?w1 @ acts\<rparr>)" and a: "list_all P acts" by blast
  have "r \<noteq> Pending" using assms(3) b by (auto simp: settles_def dest: spec [of _ ?w1])
  moreover have "\<And>e. r \<noteq> Thrown e"
    using assms(4) b by (auto simp: never_throws_def dest: spec [of _ ?w1])
  ultimately obtain reply where r: "r = Value reply" by (cases r) auto
  have "bind (page_open b) (\<lambda>_. try_finally body page_close) w
          = (Value reply, w\<lparr>trace := trace w @ [PageOpen] @ acts @ [PageClose]\<rparr>)"
    using o b r by (simp add: bind_def try_finally_def page_close_def record_call_def)
  with a show ?thesis by blast
qed

section \<open>The shape of a session\<close>

lemma try_catch_bind_first:
  assumes m: "\<And>w. \<exists>r. m w = (r, record_call a w)"
    and K: "\<And>x. emits P (K x)" and H: "\<And>e. emits P (H e)"
  shows "\<exists>r acts. try_catch (bind m K) H w = (r, w\<lparr>trace := trace w @ a # acts\<rparr>)"
proof -
  let ?w1 = "record_call a w"
  from m obtain r0 where r0: "m w = (r0, ?w1)" by blast
  have tr: "trace ?w1 = trace w @ [a]" by (simp add: record_call_def)
  have w1: "?w1\<lparr>trace := trace w @ a # acts\<rparr> = w\<lparr>trace := trace w @ a # acts\<rparr>" for acts
    by (simp add: record_call_def)
  show ?thesis
  proof (cases r0)
    case (Value x)
    have "emits P (try_catch (K x) H)" by (intro emits_try_catch K H)
    from emitsD [OF this, of ?w1] obtain r acts
      where "try_catch (K x) H ?w1 = (r, ?w1\<lparr>trace := trace ?w1 @ acts\<rparr>)" by blast
    then have "try_catch (bind m K) H w = (r, w\<lparr>trace := trace w @ a # acts\<rparr>)"
      using r0 Value by (simp add: try_catch_def bind_def tr w1)
    then show ?thesis by blast
  next
    case (Thrown e)
    from emitsD [OF H, of e ?w1] obtain r acts
      where "H e ?w1 = (r, ?w1\<lparr>trace := trace ?w1 @ acts\<rparr>)" by blast
    then have "try_catch (bind m K) H w = (r, w\<lparr>trace := trace w @ a # acts\<rparr>)"
      using r0 Thrown by (simp add: try_catch_def bind_def tr w1)
    then show ?thesis by blast
  next
    case Pending
    then have "try_catch (bind m K) H w = (Pending, w\<lparr>trace := trace w @ a # []\<rparr>)"
      using r0 by (simp add: try_catch_def bind_def record_call_def)
    then show ?thesis by blast
  qed
qed

lemma try_finally_trace:
  "\<exists>suffix. trace (snd (try_finally m page_close w)) = trace (snd (m w)) @ suffix"
  by (cases "m w"; cases "fst (m w)")
     (auto simp: try_finally_def page_close_def record_call_def)

lemma setViewport_call: "\<exists>r. setViewport b vp w = (r, record_call (SetViewport vp) w)"
  by (simp add: setViewport_def call_def)

lemmas emits_rules =
  emits_try_catch emits_bind emits_ret emits_call emits_screenshot emits_waitForFunction
  emits_evaluate_images

lemmas settles_rules =
  settles_try_catch settles_bind settles_ret settles_call settles_screenshot
  settles_waitForFunction settles_evaluate_images

lemma article_body_emits:
  assumes "\<And>vp. P (SetViewport vp)" "\<And>h. P (SetContent h)" "P EvaluateFontsReady"
    "\<And>t e. P (LoggerWarn t e)" "\<And>t. P (EvaluateImages t)" "P Screenshot" "\<And>t e. P (LoggerError t e)"
  shows "emits P
          (try_catch
            (let width = or_num (Number_of (opt_width options)) (Fin 960) in
             bind (setViewport b \<lparr>width = width, height = Fin 800, deviceScaleFactor = Fin 2\<rparr>) (\<lambda>_.
             bind (setContent b snapshot) (\<lambda>_.
             bind (try_catch (evaluate_fonts_ready b) (\<lambda>e. logger_warn FontWaitFailed e)) (\<lambda>_.
             bind (try_catch (evaluate_images b Article) (\<lambda>e. ret ())) (\<lambda>_.
             bind (screenshot b) (\<lambda>buf.
             ret (Image buf ''image/png'')))))))
            (\<lambda>err. bind (logger_error ArticleShotFailed err) (\<lambda>_. ret (Text ArticleFailed))))"
  unfolding Let_def setViewport_def setContent_def evaluate_fonts_ready_def logger_warn_def
    logger_error_def
  by (intro emits_rules assms)

lemma paste_body_emits:
  assumes "\<And>vp. P (SetViewport vp)" "\<And>h. P (SetContent h)" "\<And>e l t. P (WaitForFunction e l t)"
    "\<And>t. P (EvaluateImages t)" "P Screenshot" "\<And>t e. P (LoggerError t e)"
  shows "emits P
          (try_catch
            (let width = or_num (Number_of (opt_width options)) (Fin 960) in
             bind (setViewport b \<lparr>width = width, height = Fin 800, deviceScaleFactor = Fin 2\<rparr>) (\<lambda>_.
             bind (setContent b snapshot) (\<lambda>_.
             bind (try_catch
                     (waitForFunction b ''window.__katex_render_done === true'' 20000)
                     (\<lambda>e. ret ())) (\<lambda>_.
             bind (try_catch (evaluate_images b Paste) (\<lambda>e. ret ())) (\<lambda>_.
             bind (screenshot b) (\<lambda>buf.
             ret (Image buf ''image/png'')))))))
            (\<lambda>err. bind (logger_error PasteShotFailed err) (\<lambda>_. ret (Text PasteFailed))))"
  unfolding Let_def setViewport_def setContent_def logger_error_def
  by (intro emits_rules assms)

lemma article_body_settles:
  "settles
          (try_catch
            (let width = or_num (Number_of (opt_width options)) (Fin 960) in
             bind (setViewport b \<lparr>width = width, height = Fin 800, deviceScaleFactor = Fin 2\<rparr>) (\<lambda>_.
             bind (setContent b snapshot) (\<lambda>_.
             bind (try_catch (evaluate_fonts_ready b) (\<lambda>e. logger_warn FontWaitFailed e)) (\<lambda>_.
             bind (try_catch (evaluate_images b Article) (\<lambda>e. ret ())) (\<lambda>_.
             bind (screenshot b) (\<lambda>buf.
             ret (Image buf ''image/png'')))))))
            (\<lambda>err. bind (logger_error ArticleShotFailed err) (\<lambda>_. ret (Text ArticleFailed))))"
  unfolding Let_def setViewport_def setContent_def evaluate_fonts_ready_def logger_warn_def
    logger_error_def
  by (intro settles_rules)

lemma paste_body_settles:
  "settles
          (try_catch
            (let width = or_num (Number_of (opt_width options)) (Fin 960) in
             bind (setViewport b \<lparr>width = width, height = Fin 800, deviceScaleFactor = Fin 2\<rparr>) (\<lambda>_.
             bind (setContent b snapshot) (\<lambda>_.
             bind (try_catch
                     (waitForFunction b ''window.__katex_render_done === true'' 20000)
                     (\<lambda>e. ret ())) (\<lambda>_.
             bind (try_catch (evaluate_images b Paste) (\<lambda>e. ret ())) (\<lambda>_.
             bind (screenshot b) (\<lambda>buf.
             ret (Image buf ''image/png'')))))))
            (\<lambda>err. bind (logger_error PasteShotFailed err) (\<lambda>_. ret (Text PasteFailed))))"
  unfolding Let_def setViewport_def setContent_def logger_error_def
  by (intro settles_rules)

lemma handler_never_throws:
  "never_throws (try_catch m (\<lambda>err. bind (logger_error t err) (\<lambda>_. ret r)))"
  unfolding logger_error_def
  by (intro never_throws_try_catch never_throws_bind never_throws_call never_throws_ret)

lemma session_shape:
  assumes "puppeteer_present b" and "page_fails b = None"
    and "\<And>vp. P (SetViewport vp)" "\<And>h. P (SetContent h)" "P EvaluateFontsReady"
    "\<And>t e. P (LoggerWarn t e)" "\<And>e l t. P (WaitForFunction e l t)"
    "\<And>t. P (EvaluateImages t)" "P Screenshot" "\<And>t e. P (LoggerError t e)"
  shows "\<exists>reply acts.
           session p b options snapshot w
             = (Value reply, w\<lparr>trace := trace w @ [PageOpen] @ acts @ [PageClose]\<rparr>)
           \<and> list_all P acts"
proof (cases p)
  case Article
  from assms(1) have np: "(\<not> puppeteer_present b) = False" by simp
  show ?thesis
    unfolding Article session.simps article_session_def np if_False
    by (intro open_close_shape assms(2) article_body_emits article_body_settles
          handler_never_throws assms(3-))
next
  case Paste
  from assms(1) have np: "(\<not> puppeteer_present b) = False" by simp
  show ?thesis
    unfolding Paste session.simps paste_session_def np if_False
    by (intro open_close_shape assms(2) paste_body_emits paste_body_settles
          handler_never_throws assms(3-))
qed

lemma article_body_first:
  "\<exists>r acts.
     try_catch
       (let width = or_num (Number_of (opt_width options)) (Fin 960) in
        bind (setViewport b \<lparr>width = width, height = Fin 800, deviceScaleFactor = Fin 2\<rparr>) (\<lambda>_.
        bind (setContent b snapshot) (\<lambda>_.
        bind (try_catch (evaluate_fonts_ready b) (\<lambda>e. logger_warn FontWaitFailed e)) (\<lambda>_.
        bind (try_catch (evaluate_images b Article) (\<lambda>e. ret ())) (\<lambda>_.
        bind (screenshot b) (\<lambda>buf.
        ret (Image buf ''image/png'')))))))
       (\<lambda>err. bind (logger_error ArticleShotFailed err) (\<lambda>_. ret (Text ArticleFailed))) w
     = (r, w\<lparr>trace := trace w
          @ SetViewport \<lparr>width = or_num (Number_of (opt_width options)) (Fin 960),
                         height = Fin 800, deviceScaleFactor = Fin 2\<rparr> # acts\<rparr>)"
  unfolding Let_def setContent_def evaluate_fonts_ready_def logger_warn_def logger_error_def
  by (rule try_catch_bind_first [where P = "\<lambda>_. True", OF setViewport_call];
      intro emits_rules TrueI)

lemma paste_body_first:
  "\<exists>r acts.
     try_catch
       (let width = or_num (Number_of (opt_width options)) (Fin 960) in
        bind (setViewport b \<lparr>width = width, height = Fin 800, deviceScaleFactor = Fin 2\<rparr>) (\<lambda>_.
        bind (setContent b snapshot) (\<lambda>_.
        bind (try_catch
                (waitForFunction b ''window.__katex_render_done === true'' 20000)
                (\<lambda>e. ret ())) (\<lambda>_.
        bind (try_catch (evaluate_images b Paste) (\<lambda>e. ret ())) (\<lambda>_.
        bind (screenshot b) (\<lambda>buf.
        ret (Image buf ''image/png'')))))))
       (\<lambda>err. bind (logger_error PasteShotFailed err) (\<lambda>_. ret (Text PasteFailed))) w
     = (r, w\<lparr>trace := trace w
          @ SetViewport \<lparr>width = or_num (Number_of (opt_width options)) (Fin 960),
                         height = Fin 800, deviceScaleFactor = Fin 2\<rparr> # acts\<rparr>)"
  unfolding Let_def setContent_def logger_error_def
  by (rule try_catch_bind_first [where P = "\<lambda>_. True", OF setViewport_call];
      intro emits_rules TrueI)

section \<open>The snapshot\<close>

lemma template_no_underscore:
  "CHR ''_'' \<notin> set template_head" "CHR ''_'' \<notin> set template_mid1"
  "CHR ''_'' \<notin> set template_mid2" "CHR ''_'' \<notin> set template_tail"
  by (simp_all add: template_head_def template_mid1_def template_mid2_def template_tail_def)

lemma escape_char_underscore: "CHR ''_'' \<in> set (escape_char c) \<Longrightarrow> c = CHR ''_''"
  by (simp add: escape_char_def split: if_splits)

lemma escapeHtml_no_underscore: "CHR ''_'' \<notin> set s \<Longrightarrow> CHR ''_'' \<notin> set (escapeHtml s)"
  by (auto simp: escapeHtml_def dest: escape_char_underscore)

lemma generateHtml_no_underscore:
  assumes "CHR ''_'' \<notin> set title" "CHR ''_'' \<notin> set authorInfo" "CHR ''_'' \<notin> set (md md_config body)"
  shows "CHR ''_'' \<notin> set (generateHtml md title authorInfo body)"
  using assms template_no_underscore
  by (simp add: generateHtml_def Let_def escapeHtml_no_underscore)

lemma escapeHtml_markup_free:
  "CHR ''<'' \<notin> set (escapeHtml s)" "CHR ''>'' \<notin> set (escapeHtml s)" "CHR 0x22 \<notin> set (escapeHtml s)"
  by (auto simp: escapeHtml_def escape_char_def split: if_splits)

lemma sublist_in_generateHtml:
  assumes "sublist frag (md md_config body)"
  shows "sublist frag (generateHtml md title authorInfo body)"
proof -
  from assms obtain ps ss where "md md_config body = ps @ frag @ ss"
    by (auto simp: sublist_def)
  then have "generateHtml md title authorInfo body =
      (template_head @ escapeHtml title @ template_mid1 @ escapeHtml authorInfo @ template_mid2 @ ps)
        @ frag @ (ss @ template_tail)"
    by (simp add: generateHtml_def Let_def)
  then show ?thesis
    unfolding sublist_def by blast
qed

lemma escapeHtml_append: "escapeHtml (xs @ ys) = escapeHtml xs @ escapeHtml ys"
  by (simp add: escapeHtml_def)

lemma escapeHtml_Cons: "escapeHtml (c # cs) = escape_char c @ escapeHtml cs"
  by (simp add: escapeHtml_def)

lemma decode_escape_char: "decode_entities (escape_char c @ rest) = c # decode_entities rest"
  by (simp add: escape_char_def)

lemma decode_escapeHtml: "decode_entities (escapeHtml s) = s"
  by (induction s) (simp_all add: escapeHtml_Cons decode_escape_char, simp add: escapeHtml_def)

lemma template_head_ends: \<open>suffix ''<h1 class="title">'' template_head\<close>
  unfolding template_head_def
  apply (simp only: concat.simps append_Nil2)
  apply (rule suffix_appendI)+
  apply (simp add: suffix_def)
  done

lemma template_mid1_shape:
  \<open>prefix ''</h1>'' template_mid1\<close> \<open>suffix ''<div class="meta">'' template_mid1\<close>
  by (simp_all add: template_mid1_def suffix_def)

lemma template_mid2_starts: \<open>prefix ''</div>'' template_mid2\<close>
  by (simp add: template_mid2_def)

lemma template_mid2_ends:
  \<open>suffix ''<article class="markdown-body">\<newline>        '' template_mid2\<close>
  by (simp add: template_mid2_def suffix_def)

lemma template_tail_starts: \<open>prefix ''\<newline>      </article>'' template_tail\<close>
  by (simp add: template_tail_def)

lemma sublist_between:
  assumes "suffix a l" and "prefix b r"
  shows "sublist (a @ x @ b) (p @ l @ x @ r @ q)"
proof -
  from assms obtain l0 r0 where "l = l0 @ a" and "r = b @ r0"
    by (auto simp: suffix_def prefix_def)
  then have "p @ l @ x @ r @ q = (p @ l0) @ (a @ x @ b) @ (r0 @ q)" by simp
  then show ?thesis unfolding sublist_def by blast
qed

lemma title_in_heading:
  \<open>sublist (''<h1 class="title">'' @ escapeHtml title @ ''</h1>'')
     (generateHtml md title authorInfo body)\<close>
  using sublist_between [OF template_head_ends template_mid1_shape(1),
      where x = "escapeHtml title" and p = "[]"
        and q = "escapeHtml authorInfo @ template_mid2 @ md md_config body @ template_tail"]
  by (simp add: generateHtml_def Let_def)

lemma author_in_meta:
  \<open>sublist (''<div class="meta">'' @ escapeHtml authorInfo @ ''</div>'')
     (generateHtml md title authorInfo body)\<close>
  using sublist_between [OF template_mid1_shape(2) template_mid2_starts,
      where p = "template_head @ escapeHtml title" and x = "escapeHtml authorInfo"
        and q = "md md_config body @ template_tail"]
  by (simp add: generateHtml_def Let_def)

lemma body_in_article:
  \<open>sublist (''<article class="markdown-body">\<newline>        '' @ md md_config body
              @ ''\<newline>      </article>'')
     (generateHtml md title authorInfo body)\<close>
proof -
  from template_tail_starts obtain t0 where t: "template_tail = ''\<newline>      </article>'' @ t0"
    by (auto simp: prefix_def)
  from template_mid2_ends obtain m0 where
    m: \<open>template_mid2 = m0 @ ''<article class="markdown-body">\<newline>        ''\<close>
    by (auto simp: suffix_def)
  have \<open>generateHtml md title authorInfo body =
      (template_head @ escapeHtml title @ template_mid1 @ escapeHtml authorInfo @ m0)
      @ (''<article class="markdown-body">\<newline>        '' @ md md_config body
              @ ''\<newline>      </article>'') @ t0\<close>
    unfolding generateHtml_def Let_def by (subst t, subst m) simp
  then show ?thesis unfolding sublist_def by blast
qed

lemma escapeHtml_single:
  "escapeHtml [c] =
     (if c = CHR ''&'' then ''&amp;''
      else if c = CHR ''<'' then ''&lt;''
      else if c = CHR ''>'' then ''&gt;''
      else if c = CHR 0x22 then ''&quot;''
      else [c])"
  by (simp add: escapeHtml_def escape_char_def)

lemma sublist_of_engine:
  assumes "\<forall>opts. html opts \<longrightarrow> sublist frag (md opts body)"
  shows "sublist frag (generateHtml md title authorInfo body)"
proof -
  have "html md_config" by (simp add: md_config_def)
  with assms have "sublist frag (md md_config body)" by blast
  then show ?thesis by (rule sublist_in_generateHtml)
qed

section \<open>Properties of the specification\<close>

text \<open>
  C1. In every run of the article or the paste command in which the page was acquired, the
  command completes with a reply, \<open>page.close\<close> is called exactly once and last, whatever
  the calls in between did (success, a rejected viewport, content, wait or screenshot call,
  a wait that ran into its ceiling), and the number of open pages is back at its value
  from before the acquisition.
\<close>

theorem page_closed_on_every_path:
  assumes "puppeteer_present b" and "page_fails b = None"
  shows "\<exists>reply acts.
           session p b options snapshot w
             = (Value reply, w\<lparr>trace := trace w @ [PageOpen] @ acts @ [PageClose]\<rparr>)
           \<and> PageClose \<notin> set acts \<and> PageOpen \<notin> set acts
           \<and> open_pages (snd (session p b options snapshot w)) = open_pages w"
proof -
  from session_shape [OF assms, where P = "\<lambda>a. a \<noteq> PageClose \<and> a \<noteq> PageOpen", of p options snapshot w]
  obtain reply acts where
    s: "session p b options snapshot w
          = (Value reply, w\<lparr>trace := trace w @ [PageOpen] @ acts @ [PageClose]\<rparr>)"
    and a: "list_all (\<lambda>a. a \<noteq> PageClose \<and> a \<noteq> PageOpen) acts"
    by auto
  from a have "PageClose \<notin> set acts \<and> PageOpen \<notin> set acts"
    by (auto simp: list_all_iff)
  with s show ?thesis by auto
qed

text \<open>
  The same on a run where the font wait times out, the only image never completes and the
  screenshot fails.
\<close>

theorem page_closed_on_every_path_witness:
  "puppeteer_present rough_browser \<and> page_fails rough_browser = None
   \<and> (\<exists>reply acts.
         session Article rough_browser \<lparr>opt_width = None\<rparr> ''<p>x</p>'' \<lparr>trace = [], open_pages = 3\<rparr>
           = (Value reply, \<lparr>trace = [PageOpen] @ acts @ [PageClose], open_pages = 3\<rparr>)
         \<and> PageClose \<notin> set acts)
   \<and> open_pages (snd (session Paste rough_browser \<lparr>opt_width = None\<rparr> ''<p>x</p>''
        \<lparr>trace = [], open_pages = 3\<rparr>)) = 3"
proof -
  have h1: "puppeteer_present rough_browser" by (simp add: rough_browser_def)
  have h2: "page_fails rough_browser = None" by (simp add: rough_browser_def)
  from page_closed_on_every_path [OF h1 h2, of Article "\<lparr>opt_width = None\<rparr>" "''<p>x</p>''"
      "\<lparr>trace = [], open_pages = 3\<rparr>"]
    page_closed_on_every_path [OF h1 h2, of Paste "\<lparr>opt_width = None\<rparr>" "''<p>x</p>''"
      "\<lparr>trace = [], open_pages = 3\<rparr>"]
  show ?thesis using h1 h2 by auto
qed

text \<open>
  C2. For a document without images the executor of the image promise, in the article and
  in the paste command alike, resolves the promise at once: at time 0, with no timer set
  and no listener added; no later event changes that state, and the readiness step of the
  session records a wait of 0 ms.
\<close>

theorem no_images_resolves_at_once:
  "article_executor [] = \<lparr>loaded = 0, resolved_at = Some 0, timer = NotSet, listeners = []\<rparr>
   \<and> paste_executor [] = \<lparr>loaded = 0, resolved_at = Some 0, timer = NotSet, listeners = []\<rparr>
   \<and> foldl (deliver p 0) (executor p []) evs = executor p []
   \<and> image_wait p [] evs = Some 0
   \<and> evaluate_images (b\<lparr>images_complete := [], evaluate_images_fails := None\<rparr>) p w
       = (Value (), record_call (EvaluateImages (Some 0)) w)"
proof -
  have a: "article_executor [] = \<lparr>loaded = 0, resolved_at = Some 0, timer = NotSet, listeners = []\<rparr>"
    by (simp add: article_executor_def resolve_def wait_init_def)
  have b: "paste_executor [] = \<lparr>loaded = 0, resolved_at = Some 0, timer = NotSet, listeners = []\<rparr>"
    by (simp add: paste_executor_def resolve_def wait_init_def)
  have e: "executor p [] = \<lparr>loaded = 0, resolved_at = Some 0, timer = NotSet, listeners = []\<rparr>"
    using a b by (cases p) simp_all
  have d: "\<And>ev. deliver p 0 (executor p []) ev = executor p []"
    unfolding e by (simp add: deliver_def fire_due_def)
  have f: "foldl (deliver p 0) (executor p []) es = executor p []" for es
    by (induction es) (simp_all add: d)
  have w: "image_wait p [] es = Some 0" for es
    using f [of es] by (simp add: image_wait_def e finish_def)
  have "evaluate_images (b\<lparr>images_complete := [], evaluate_images_fails := None\<rparr>) p w
       = (Value (), record_call (EvaluateImages (Some 0)) w)"
    by (simp add: evaluate_images_def w)
  with a b f w show ?thesis by blast
qed

text \<open>
  C3. For a document with at least one image, in both commands: the image wait resolves,
  and no later than 5000 ms, whatever events arrive (also when some image never
  completes); whether an image reports \<open>load\<close> or \<open>error\<close> makes no difference to the
  outcome; if every image was complete at enumeration the wait resolves at once; and if
  each of the remaining images reports once, in time order, the wait resolves at the
  time of the last report or at 5000 ms, whichever comes first.
\<close>

theorem image_wait_is_race:
  assumes "imgs \<noteq> []"
  shows "(\<exists>t \<le> 5000. image_wait p imgs evs = Some t)
       \<and> image_wait p imgs (map (\<lambda>(t, i, sg). (t, i, g t i sg)) evs) = image_wait p imgs evs
       \<and> (filter Not imgs = [] \<longrightarrow> image_wait p imgs evs = Some 0)
       \<and> (sorted (map fst evs)
            \<and> (\<forall>ev \<in> set evs. fst (snd ev) < length imgs \<and> \<not> imgs ! fst (snd ev))
            \<and> length evs = length (filter Not imgs) \<and> evs \<noteq> []
          \<longrightarrow> image_wait p imgs evs = Some (min 5000 (fst (last evs))))"
  using image_wait_resolves [of p imgs evs] image_wait_relabel [of p imgs g evs]
    image_wait_all_complete [of imgs p evs] image_wait_last_event [of evs imgs p]
  by blast

text \<open>
  Three images, the first complete: the second loads at 120 ms, the third fails at 340 ms,
  and the wait resolves at 340 ms in both commands; with the third image silent it still
  resolves by the ceiling.
\<close>

theorem image_wait_is_race_witness:
  "[True, False, False] \<noteq> []
   \<and> image_wait Article [True, False, False] [(120, 1, Load), (340, 2, Error)] = Some 340
   \<and> image_wait Article [True, False, False] [(120, 1, Load), (340, 2, Load)] = Some 340
   \<and> image_wait Paste [True, False, False] [(120, 1, Load), (340, 2, Error)] = Some 340
   \<and> (\<exists>t \<le> 5000. image_wait Paste [True, False, False] [(120, 1, Load)] = Some t)"
  using image_wait_is_race [of "[True, False, False]" Article "[(120, 1, Load), (340, 2, Error)]" "\<lambda>_ _ _. Load"]
    image_wait_is_race [of "[True, False, False]" Paste "[(120, 1, Load), (340, 2, Error)]" "\<lambda>_ _ _. Load"]
    image_wait_is_race [of "[True, False, False]" Paste "[(120, 1, Load)]" "\<lambda>_ _ _. Load"]
  by simp

text \<open>
  C4. The specification says that the article and the paste command alike wait for the
  fonts and for the images before the capture, a failed font wait being logged and not
  fatal. The article command does: on a calm run it evaluates \<open>document.fonts.ready\<close>
  before the image wait, and when that evaluation times out it logs the warning and still
  captures. The paste command does not: no run of it, whatever the browser does, ever
  evaluates \<open>document.fonts.ready\<close>; on the calm run it polls the typesetting flag and
  then waits for the images.
\<close>

theorem paste_session_has_no_font_wait:
  "EvaluateFontsReady \<notin> set (trace (snd (paste_session b options snapshot \<lparr>trace = [], open_pages = n\<rparr>)))
   \<and> article_session calm_browser \<lparr>opt_width = None\<rparr> snapshot \<lparr>trace = [], open_pages = 0\<rparr>
       = (Value (Image [137, 80, 78, 71] ''image/png''),
          \<lparr>trace = [PageOpen,
                    SetViewport \<lparr>width = Fin 960, height = Fin 800, deviceScaleFactor = Fin 2\<rparr>,
                    SetContent snapshot, EvaluateFontsReady, EvaluateImages (Some 0),
                    Screenshot, PageClose],
           open_pages = 0\<rparr>)
   \<and> article_session (calm_browser\<lparr>fonts_ready_fails := Some TimeoutError\<rparr>) \<lparr>opt_width = None\<rparr>
         snapshot \<lparr>trace = [], open_pages = 0\<rparr>
       = (Value (Image [137, 80, 78, 71] ''image/png''),
          \<lparr>trace = [PageOpen,
                    SetViewport \<lparr>width = Fin 960, height = Fin 800, deviceScaleFactor = Fin 2\<rparr>,
                    SetContent snapshot, EvaluateFontsReady,
                    LoggerWarn FontWaitFailed TimeoutError, EvaluateImages (Some 0),
                    Screenshot, PageClose],
           open_pages = 0\<rparr>)
   \<and> paste_session calm_browser \<lparr>opt_width = None\<rparr> snapshot \<lparr>trace = [], open_pages = 0\<rparr>
       = (Value (Image [137, 80, 78, 71] ''image/png''),
          \<lparr>trace = [PageOpen,
                    SetViewport \<lparr>width = Fin 960, height = Fin 800, deviceScaleFactor = Fin 2\<rparr>,
                    SetContent snapshot,
                    WaitForFunction ''window.__katex_render_done === true'' 20000 20000,
                    EvaluateImages (Some 0), Screenshot, PageClose],
           open_pages = 0\<rparr>)"
proof -
  let ?w0 = "\<lparr>trace = [], open_pages = n\<rparr>"
  have none: "image_wait p [] [] = Some 0" for p
    by (cases p) (simp_all add: image_wait_def article_executor_def paste_executor_def
        resolve_def wait_init_def finish_def)
  have a: "EvaluateFontsReady \<notin> set (trace (snd (paste_session b options snapshot ?w0)))"
  proof (cases "puppeteer_present b")
    case False
    then show ?thesis by (simp add: paste_session_def ret_def)
  next
    case True
    then have np: "(\<not> puppeteer_present b) = False" by simp
    show ?thesis
    proof (cases "page_fails b")
      case (Some e)
      then show ?thesis
        by (simp add: paste_session_def np bind_def page_open_def record_call_def)
    next
      case None
      have "\<exists>reply acts.
           bind (page_open b) (\<lambda>_. try_finally
             (try_catch
            (let width = or_num (Number_of (opt_width options)) (Fin 960) in
             bind (setViewport b \<lparr>width = width, height = Fin 800, deviceScaleFactor = Fin 2\<rparr>) (\<lambda>_.
             bind (setContent b snapshot) (\<lambda>_.
             bind (try_catch
                     (waitForFunction b ''window.__katex_render_done === true'' 20000)
                     (\<lambda>e. ret ())) (\<lambda>_.
             bind (try_catch (evaluate_images b Paste) (\<lambda>e. ret ())) (\<lambda>_.
             bind (screenshot b) (\<lambda>buf.
             ret (Image buf ''image/png'')))))))
            (\<lambda>err. bind (logger_error PasteShotFailed err) (\<lambda>_. ret (Text PasteFailed))))
            page_close) ?w0
             = (Value reply, ?w0\<lparr>trace := trace ?w0 @ [PageOpen] @ acts @ [PageClose]\<rparr>)
           \<and> list_all (\<lambda>a. a \<noteq> EvaluateFontsReady) acts"
        by (intro open_close_shape None paste_body_emits paste_body_settles handler_never_throws)
          simp_all
      then show ?thesis
        unfolding paste_session_def np if_False by (auto simp: list_all_iff)
    qed
  qed
  have b: "article_session calm_browser \<lparr>opt_width = None\<rparr> snapshot \<lparr>trace = [], open_pages = 0\<rparr>
       = (Value (Image [137, 80, 78, 71] ''image/png''),
          \<lparr>trace = [PageOpen,
                    SetViewport \<lparr>width = Fin 960, height = Fin 800, deviceScaleFactor = Fin 2\<rparr>,
                    SetContent snapshot, EvaluateFontsReady, EvaluateImages (Some 0),
                    Screenshot, PageClose],
           open_pages = 0\<rparr>)"
    by (simp add: article_session_def calm_browser_def bind_def try_catch_def try_finally_def
        ret_def page_open_def page_close_def setViewport_def setContent_def
        evaluate_fonts_ready_def evaluate_images_def screenshot_def call_def record_call_def
        or_num_def none)
  have c: "article_session (calm_browser\<lparr>fonts_ready_fails := Some TimeoutError\<rparr>) \<lparr>opt_width = None\<rparr>
         snapshot \<lparr>trace = [], open_pages = 0\<rparr>
       = (Value (Image [137, 80, 78, 71] ''image/png''),
          \<lparr>trace = [PageOpen,
                    SetViewport \<lparr>width = Fin 960, height = Fin 800, deviceScaleFactor = Fin 2\<rparr>,
                    SetContent snapshot, EvaluateFontsReady,
                    LoggerWarn FontWaitFailed TimeoutError, EvaluateImages (Some 0),
                    Screenshot, PageClose],
           open_pages = 0\<rparr>)"
    by (simp add: article_session_def calm_browser_def bind_def try_catch_def try_finally_def
        ret_def page_open_def page_close_def setViewport_def setContent_def logger_warn_def
        evaluate_fonts_ready_def evaluate_images_def screenshot_def call_def record_call_def
        or_num_def none)
  have d: "paste_session calm_browser \<lparr>opt_width = None\<rparr> snapshot \<lparr>trace = [], open_pages = 0\<rparr>
       = (Value (Image [137, 80, 78, 71] ''image/png''),
          \<lparr>trace = [PageOpen,
                    SetViewport \<lparr>width = Fin 960, height = Fin 800, deviceScaleFactor = Fin 2\<rparr>,
                    SetContent snapshot,
                    WaitForFunction ''window.__katex_render_done === true'' 20000 20000,
                    EvaluateImages (Some 0), Screenshot, PageClose],
           open_pages = 0\<rparr>)"
    by (simp add: paste_session_def calm_browser_def bind_def try_catch_def try_finally_def
        ret_def page_open_def page_close_def setViewport_def setContent_def
        waitForFunction_def evaluate_images_def screenshot_def call_def record_call_def
        or_num_def none)
  from a b c d show ?thesis by blast
qed

text \<open>
  C5. The specification says that the snapshot declares the completion flag that the
  paste command polls. For the title \<open>T\<close>, the author line \<open>A\<close> and the body \<open>Hello\<close> (which the engine
  renders as one paragraph) the snapshot does not contain the name of the flag anywhere,
  so nothing in the page can set it; the paste command then polls
  \<open>window.__katex_render_done === true\<close> for the whole 20000 ms, tolerates the timeout and
  goes on to the screenshot.
\<close>

theorem snapshot_declares_no_flag:
  "\<not> sublist ''__katex_render_done''
       (generateHtml (\<lambda>_ _. ''<p>Hello</p>\<newline>'') ''T'' ''A'' ''Hello'')
   \<and> paste_session calm_browser \<lparr>opt_width = None\<rparr>
         (generateHtml (\<lambda>_ _. ''<p>Hello</p>\<newline>'') ''T'' ''A'' ''Hello'')
         \<lparr>trace = [], open_pages = 0\<rparr>
       = (Value (Image [137, 80, 78, 71] ''image/png''),
          \<lparr>trace = [PageOpen,
                    SetViewport \<lparr>width = Fin 960, height = Fin 800, deviceScaleFactor = Fin 2\<rparr>,
                    SetContent (generateHtml (\<lambda>_ _. ''<p>Hello</p>\<newline>'') ''T'' ''A'' ''Hello''),
                    WaitForFunction ''window.__katex_render_done === true'' 20000 20000,
                    EvaluateImages (Some 0), Screenshot, PageClose],
           open_pages = 0\<rparr>)"
proof -
  have "CHR ''_'' \<notin> set (generateHtml (\<lambda>_ _. ''<p>Hello</p>\<newline>'') ''T'' ''A'' ''Hello'')"
    by (rule generateHtml_no_underscore) simp_all
  moreover have "CHR ''_'' \<in> set ''__katex_render_done''" by simp
  ultimately have a: "\<not> sublist ''__katex_render_done''
       (generateHtml (\<lambda>_ _. ''<p>Hello</p>\<newline>'') ''T'' ''A'' ''Hello'')"
    using set_mono_sublist by blast
  have none: "image_wait Paste [] [] = Some 0"
    by (simp add: image_wait_def paste_executor_def resolve_def wait_init_def finish_def)
  have "paste_session calm_browser \<lparr>opt_width = None\<rparr> snapshot \<lparr>trace = [], open_pages = 0\<rparr>
       = (Value (Image [137, 80, 78, 71] ''image/png''),
          \<lparr>trace = [PageOpen,
                    SetViewport \<lparr>width = Fin 960, height = Fin 800, deviceScaleFactor = Fin 2\<rparr>,
                    SetContent snapshot,
                    WaitForFunction ''window.__katex_render_done === true'' 20000 20000,
                    EvaluateImages (Some 0), Screenshot, PageClose],
           open_pages = 0\<rparr>)" for snapshot
    by (simp add: paste_session_def calm_browser_def bind_def try_catch_def try_finally_def
        ret_def page_open_def page_close_def setViewport_def setContent_def
        waitForFunction_def evaluate_images_def screenshot_def call_def record_call_def
        or_num_def none)
  with a show ?thesis by blast
qed

text \<open>
  C6. For a response whose \<open>code\<close> is anything but the number 200, \<open>getArticle\<close>,
  \<open>getPaste\<close>, \<open>getTask\<close> and \<open>createTask\<close> return \<open>null\<close>: they neither throw nor return
  data. When the HTTP call itself rejects, the rejection is what the operation throws; and
  on a response that is an object the three queries do not throw at all.
\<close>

theorem single_record_not_found:
  assumes "member res ''code'' = Inr cv" and "strict_neq_num cv 200"
  shows "(http (get_request c (''/article/query/'' @ encodeURIComponent ident) extra) = Inr res
            \<longrightarrow> getArticle http c ident extra = Inr JNull)
       \<and> (http (get_request c (''/paste/query/'' @ encodeURIComponent ident) extra) = Inr res
            \<longrightarrow> getPaste http c ident extra = Inr JNull)
       \<and> (http (get_request c (''/task/query/'' @ encodeURIComponent ident) extra) = Inr res
            \<longrightarrow> getTask http c ident extra = Inr JNull)
       \<and> (http (post_request c ''/task/create'' body extra) = Inr res
            \<longrightarrow> createTask http c body extra = Inr JNull)
       \<and> (http (get_request c (''/article/query/'' @ encodeURIComponent ident) extra) = Inl e
            \<longrightarrow> getArticle http c ident extra = Inl e)
       \<and> (http (get_request c (''/paste/query/'' @ encodeURIComponent ident) extra) = Inl e
            \<longrightarrow> getPaste http c ident extra = Inl e)
       \<and> (http (get_request c (''/task/query/'' @ encodeURIComponent ident) extra) = Inl e
            \<longrightarrow> getTask http c ident extra = Inl e)
       \<and> (http (post_request c ''/task/create'' body extra) = Inl e
            \<longrightarrow> createTask http c body extra = Inl e)
       \<and> (http (get_request c (''/article/query/'' @ encodeURIComponent ident) extra) = Inr (JObj fs)
            \<longrightarrow> (\<exists>v. getArticle http c ident extra = Inr v))
       \<and> (http (get_request c (''/paste/query/'' @ encodeURIComponent ident) extra) = Inr (JObj fs)
            \<longrightarrow> (\<exists>v. getPaste http c ident extra = Inr v))
       \<and> (http (get_request c (''/task/query/'' @ encodeURIComponent ident) extra) = Inr (JObj fs)
            \<longrightarrow> (\<exists>v. getTask http c ident extra = Inr v))"
  using assms
  by (simp add: getArticle_def getPaste_def getTask_def createTask_def code_then_data_def)

text \<open>A response with code 404, and a transport failure.\<close>

theorem single_record_not_found_witness:
  "member not_found_envelope ''code'' = Inr (JNum (Fin 404))
   \<and> strict_neq_num (JNum (Fin 404)) 200
   \<and> getArticle (\<lambda>_. Inr not_found_envelope) \<lparr>endpoint = ''http://x/'', userAgent = ''Uptime-Kuma''\<rparr>
         ''p1'' None = Inr JNull
   \<and> getPaste (\<lambda>_. Inr not_found_envelope) \<lparr>endpoint = ''http://x/'', userAgent = ''Uptime-Kuma''\<rparr>
         ''p1'' None = Inr JNull
   \<and> getTask (\<lambda>_. Inr not_found_envelope) \<lparr>endpoint = ''http://x/'', userAgent = ''Uptime-Kuma''\<rparr>
         ''p1'' None = Inr JNull
   \<and> createTask (\<lambda>_. Inr not_found_envelope) \<lparr>endpoint = ''http://x/'', userAgent = ''Uptime-Kuma''\<rparr>
         JNull None = Inr JNull
   \<and> getArticle (\<lambda>_. Inl TransportError) \<lparr>endpoint = ''http://x/'', userAgent = ''Uptime-Kuma''\<rparr>
         ''p1'' None = Inl TransportError"
proof -
  have h1: "member not_found_envelope ''code'' = Inr (JNum (Fin 404))"
    by (simp add: not_found_envelope_def)
  have h2: "strict_neq_num (JNum (Fin 404)) 200" by simp
  from single_record_not_found [OF h1 h2,
      of "\<lambda>_. Inr not_found_envelope" "\<lparr>endpoint = ''http://x/'', userAgent = ''Uptime-Kuma''\<rparr>"
         "''p1''" None JNull TransportError]
    single_record_not_found [OF h1 h2,
      of "\<lambda>_. Inl TransportError" "\<lparr>endpoint = ''http://x/'', userAgent = ''Uptime-Kuma''\<rparr>"
         "''p1''" None JNull TransportError]
  show ?thesis using h1 h2 by simp
qed

text \<open>
  C7. \<open>buildUrl\<close> removes one trailing slash from the endpoint; an empty base gives the
  path unchanged; otherwise the result is the base, one slash, and the path without its
  own leading slash. Only one trailing slash is removed. The revision that also logs
  returns the same URL. The three examples of the specification hold.
\<close>

theorem buildUrl_normalizes:
  "buildUrl ep path =
     (let base = (if suffix ''/'' ep then butlast ep else ep)
      in if base = [] then path
         else base @ ''/'' @ (if prefix ''/'' path then tl path else path))
   \<and> snd (buildUrl_logging ep path) = buildUrl ep path
   \<and> buildUrl [] path = path
   \<and> buildUrl (b @ ''//'') ''a'' = b @ ''//a''
   \<and> buildUrl ''http://x/'' ''/a/b'' = ''http://x/a/b''
   \<and> buildUrl [] ''/a/b'' = ''/a/b''
   \<and> buildUrl ''http://x'' ''a/b'' = ''http://x/a/b''"
proof -
  have trim: "trim_trailing_slash ep = (if suffix ''/'' ep then butlast ep else ep)"
    by (cases ep rule: rev_cases) (auto simp: trim_trailing_slash_def suffix_def)
  have sw: "startsWith_slash path = prefix ''/'' path"
    by (cases path) auto
  have tl: "prefix ''/'' path \<Longrightarrow> ''/'' @ tl path = path"
    by (cases path) auto
  have main: "buildUrl ep path =
     (let base = (if suffix ''/'' ep then butlast ep else ep)
      in if base = [] then path
         else base @ ''/'' @ (if prefix ''/'' path then tl path else path))"
    unfolding buildUrl_def trim sw Let_def using tl by auto
  have lg: "snd (buildUrl_logging ep path) = buildUrl ep path"
    by (simp add: buildUrl_logging_def buildUrl_def Let_def)
  have e0: "buildUrl [] path = path"
    by (simp add: buildUrl_def trim_trailing_slash_def)
  have e1: "buildUrl (b @ ''//'') ''a'' = b @ ''//a''"
    by (simp add: buildUrl_def trim_trailing_slash_def butlast_append)
  have e2: "buildUrl ''http://x/'' ''/a/b'' = ''http://x/a/b''"
    by (simp add: buildUrl_def trim_trailing_slash_def)
  have e3: "buildUrl [] ''/a/b'' = ''/a/b''"
    by (simp add: buildUrl_def trim_trailing_slash_def)
  have e4: "buildUrl ''http://x'' ''a/b'' = ''http://x/a/b''"
    by (simp add: buildUrl_def trim_trailing_slash_def)
  from main lg e0 e1 e2 e3 e4 show ?thesis by blast
qed

text \<open>
  C8. The specification says that \<open>getRecent\<close>, \<open>getRelevant\<close> and \<open>getHistory\<close> return
  the list carried by a success envelope. On the envelope with code 200, any message and any list
  as \<open>data\<close>, all three return \<open>null\<close>: they read the property \<open>data\<close> of the list. On
  the same response \<open>getArticle\<close> returns the list.
\<close>

theorem list_operations_return_null:
  "getRecent (\<lambda>_. Inr (JObj [(''code'', JNum (Fin 200)), (''message'', JStr m), (''data'', JArr xs)]))
      c opts extra = Inr JNull
   \<and> getRelevant (\<lambda>_. Inr (JObj [(''code'', JNum (Fin 200)), (''message'', JStr m), (''data'', JArr xs)]))
      c ident extra = Inr JNull
   \<and> getHistory (\<lambda>_. Inr (JObj [(''code'', JNum (Fin 200)), (''message'', JStr m), (''data'', JArr xs)]))
      c ident extra = Inr JNull
   \<and> getArticle (\<lambda>_. Inr (JObj [(''code'', JNum (Fin 200)), (''message'', JStr m), (''data'', JArr xs)]))
      c ident extra = Inr (JArr xs)"
  by (simp add: getRecent_def getRelevant_def getHistory_def getArticle_def code_then_data_def
      data_data_or_null_def nullish_or_def)

text \<open>
  C9. For every title, author line, body and engine, the snapshot is the fixed template
  with the escaped title inside the heading element, the escaped author line inside the
  meta element and the output of the engine inside the article element, nothing of the
  three entering in any other way. \<open>escapeHtml\<close> works character by character, replaces
  exactly \<open>&\<close>, \<open><\<close>, \<open>>\<close> and the double quote by their entities and keeps every other
  character, so the escaped text holds no \<open><\<close>, \<open>>\<close> or double quote and decodes back to
  the title. The engine is constructed with \<open>html\<close> on and its output is not escaped:
  every fragment that the engine lets through whenever \<open>html\<close> is on is in the snapshot
  unchanged.
\<close>

theorem generateHtml_escapes_header_only:
  \<open>generateHtml md title authorInfo body =
     template_head @ escapeHtml title @ template_mid1 @ escapeHtml authorInfo @ template_mid2
       @ md md_config body @ template_tail
   \<and> sublist (''<h1 class="title">'' @ escapeHtml title @ ''</h1>'')
        (generateHtml md title authorInfo body)
   \<and> sublist (''<div class="meta">'' @ escapeHtml authorInfo @ ''</div>'')
        (generateHtml md title authorInfo body)
   \<and> sublist (''<article class="markdown-body">\<newline>        '' @ md md_config body
                @ ''\<newline>      </article>'')
        (generateHtml md title authorInfo body)
   \<and> escapeHtml (xs @ ys) = escapeHtml xs @ escapeHtml ys
   \<and> escapeHtml [c] =
        (if c = CHR ''&'' then ''&amp;''
         else if c = CHR ''<'' then ''&lt;''
         else if c = CHR ''>'' then ''&gt;''
         else if c = CHR 0x22 then ''&quot;''
         else [c])
   \<and> decode_entities (escapeHtml title) = title
   \<and> decode_entities (escapeHtml authorInfo) = authorInfo
   \<and> CHR ''<'' \<notin> set (escapeHtml title) \<and> CHR ''>'' \<notin> set (escapeHtml title)
   \<and> CHR 0x22 \<notin> set (escapeHtml title)
   \<and> CHR ''<'' \<notin> set (escapeHtml authorInfo) \<and> CHR ''>'' \<notin> set (escapeHtml authorInfo)
   \<and> CHR 0x22 \<notin> set (escapeHtml authorInfo)
   \<and> html md_config
   \<and> ((\<forall>opts. html opts \<longrightarrow> sublist frag (md opts body))
        \<longrightarrow> sublist frag (generateHtml md title authorInfo body))\<close>
proof -
  have "generateHtml md title authorInfo body =
     template_head @ escapeHtml title @ template_mid1 @ escapeHtml authorInfo @ template_mid2
       @ md md_config body @ template_tail"
    by (simp add: generateHtml_def Let_def)
  moreover have "html md_config" by (simp add: md_config_def)
  ultimately show ?thesis
    using title_in_heading [of title md authorInfo body]
      author_in_meta [of authorInfo md title body]
      body_in_article [of md body title authorInfo]
      escapeHtml_append [of xs ys] escapeHtml_single [of c]
      decode_escapeHtml [of title] decode_escapeHtml [of authorInfo]
      escapeHtml_markup_free [of title] escapeHtml_markup_free [of authorInfo]
      sublist_of_engine [of frag md body title authorInfo]
    by blast
qed

text \<open>
  A title with tags and quotes, an author line with an ampersand, and the body
  \<open><b>x</b>\<close> given to the paragraph engine, which lets the tag through when \<open>html\<close> is
  on and not when it is off.
\<close>

theorem generateHtml_escapes_header_only_witness:
  \<open>sublist ''<b>x</b>'' (generateHtml paragraph_engine ''<i>"T"</i>'' ''A&B'' ''<b>x</b>'')
   \<and> \<not> sublist ''<b>x</b>'' (paragraph_engine (md_config\<lparr>html := False\<rparr>) ''<b>x</b>'')
   \<and> sublist ''<h1 class="title">&lt;i&gt;&quot;T&quot;&lt;/i&gt;</h1>''
        (generateHtml paragraph_engine ''<i>"T"</i>'' ''A&B'' ''<b>x</b>'')
   \<and> sublist ''<div class="meta">A&amp;B</div>''
        (generateHtml paragraph_engine ''<i>"T"</i>'' ''A&B'' ''<b>x</b>'')
   \<and> decode_entities ''&lt;i&gt;&quot;T&quot;&lt;/i&gt;'' = ''<i>"T"</i>''\<close>
proof -
  have p: "sublist ''<b>x</b>'' (paragraph_engine opts ''<b>x</b>'')" if "html opts" for opts
  proof -
    have "paragraph_engine opts ''<b>x</b>'' = ''<p>'' @ ''<b>x</b>'' @ ''</p>\<newline>''"
      using that by (simp add: paragraph_engine_def)
    then show ?thesis unfolding sublist_def by blast
  qed
  then have h: "\<forall>opts. html opts \<longrightarrow> sublist ''<b>x</b>'' (paragraph_engine opts ''<b>x</b>'')"
    by blast
  have e1: \<open>escapeHtml ''<i>"T"</i>'' = ''&lt;i&gt;&quot;T&quot;&lt;/i&gt;''\<close>
    by (simp add: escapeHtml_def escape_char_def)
  have e2: "escapeHtml ''A&B'' = ''A&amp;B''"
    by (simp add: escapeHtml_def escape_char_def)
  have n: "\<not> sublist ''<b>x</b>'' (paragraph_engine (md_config\<lparr>html := False\<rparr>) ''<b>x</b>'')"
    by code_simp
  note t = generateHtml_escapes_header_only
    [of paragraph_engine \<open>''<i>"T"</i>''\<close> "''A&B''" "''<b>x</b>''" "[]" "[]" "CHR ''a''" "''<b>x</b>''"]
  from t h have a: \<open>sublist ''<b>x</b>''
      (generateHtml paragraph_engine ''<i>"T"</i>'' ''A&B'' ''<b>x</b>'')\<close>
    by blast
  from t have \<open>sublist (''<h1 class="title">'' @ escapeHtml ''<i>"T"</i>'' @ ''</h1>'')
      (generateHtml paragraph_engine ''<i>"T"</i>'' ''A&B'' ''<b>x</b>'')\<close>
    by blast
  then have b: \<open>sublist ''<h1 class="title">&lt;i&gt;&quot;T&quot;&lt;/i&gt;</h1>''
      (generateHtml paragraph_engine ''<i>"T"</i>'' ''A&B'' ''<b>x</b>'')\<close>
    unfolding e1 by simp
  from t have \<open>sublist (''<div class="meta">'' @ escapeHtml ''A&B'' @ ''</div>'')
      (generateHtml paragraph_engine ''<i>"T"</i>'' ''A&B'' ''<b>x</b>'')\<close>
    by blast
  then have c: \<open>sublist ''<div class="meta">A&amp;B</div>''
      (generateHtml paragraph_engine ''<i>"T"</i>'' ''A&B'' ''<b>x</b>'')\<close>
    unfolding e2 by simp
  from t have \<open>decode_entities (escapeHtml ''<i>"T"</i>'') = ''<i>"T"</i>''\<close>
    by blast
  then have d: \<open>decode_entities ''&lt;i&gt;&quot;T&quot;&lt;/i&gt;'' = ''<i>"T"</i>''\<close>
    unfolding e1 .
  from a n b c d show ?thesis by blast
qed

text \<open>
  C10. In both commands, once the page is acquired, the first call on it is
  \<open>setViewport\<close> with height 800, scale factor 2 and the width \<open>Number(options.width)\<close>
  when that is a number other than zero, and 960 when the option is absent, zero or NaN.
\<close>

theorem viewport_applied:
  assumes "puppeteer_present b" and "page_fails b = None"
  shows "\<exists>rest. trace (snd (session p b options snapshot w)) =
           trace w @ PageOpen
             # SetViewport
                 \<lparr>width = (case opt_width options of
                             None \<Rightarrow> Fin 960
                           | Some NaN \<Rightarrow> Fin 960
                           | Some (Fin x) \<Rightarrow> if x = 0 then Fin 960 else Fin x
                           | Some n \<Rightarrow> n),
                  height = Fin 800, deviceScaleFactor = Fin 2\<rparr>
             # rest"
proof -
  let ?vp = "\<lparr>width = or_num (Number_of (opt_width options)) (Fin 960),
              height = Fin 800, deviceScaleFactor = Fin 2\<rparr>"
  have wd: "or_num (Number_of (opt_width options)) (Fin 960) =
        (case opt_width options of
           None \<Rightarrow> Fin 960
         | Some NaN \<Rightarrow> Fin 960
         | Some (Fin x) \<Rightarrow> if x = 0 then Fin 960 else Fin x
         | Some n \<Rightarrow> n)"
    by (simp add: or_num_def split: option.splits jsnum.splits)
  let ?w1 = "(record_call PageOpen w)\<lparr>open_pages := open_pages w + 1\<rparr>"
  have o: "page_open b w = (Value (), ?w1)"
    using assms(2) by (simp add: page_open_def)
  from assms(1) have np: "(\<not> puppeteer_present b) = False" by simp
  have tr: "trace ?w1 = trace w @ [PageOpen]" by (simp add: record_call_def)
  have "\<exists>body. session p b options snapshot = bind (page_open b) (\<lambda>_. try_finally body page_close)
      \<and> (\<exists>r acts. body ?w1 = (r, ?w1\<lparr>trace := trace ?w1 @ SetViewport ?vp # acts\<rparr>))"
  proof (cases p)
    case Article
    show ?thesis
      unfolding Article session.simps article_session_def np if_False
      using article_body_first [of options b snapshot ?w1] by blast
  next
    case Paste
    show ?thesis
      unfolding Paste session.simps paste_session_def np if_False
      using paste_body_first [of options b snapshot ?w1] by blast
  qed
  then obtain body r acts where
    s: "session p b options snapshot = bind (page_open b) (\<lambda>_. try_finally body page_close)"
    and bd: "body ?w1 = (r, ?w1\<lparr>trace := trace ?w1 @ SetViewport ?vp # acts\<rparr>)" by blast
  from try_finally_trace [of body ?w1] obtain suffix where
    "trace (snd (try_finally body page_close ?w1)) = trace (snd (body ?w1)) @ suffix" by blast
  then have "trace (snd (session p b options snapshot w)) =
      trace w @ PageOpen # SetViewport ?vp # (acts @ suffix)"
    using s o bd tr by (simp add: bind_def)
  then show ?thesis unfolding wd by blast
qed

text \<open>Widths 1280, 0, NaN and absent on a calm run.\<close>

theorem viewport_applied_witness:
  "puppeteer_present calm_browser \<and> page_fails calm_browser = None
   \<and> (\<exists>rest. trace (snd (session Article calm_browser \<lparr>opt_width = Some (Fin 1280)\<rparr> ''<p>x</p>''
                  \<lparr>trace = [], open_pages = 0\<rparr>)) =
         PageOpen # SetViewport \<lparr>width = Fin 1280, height = Fin 800, deviceScaleFactor = Fin 2\<rparr> # rest)
   \<and> (\<exists>rest. trace (snd (session Paste calm_browser \<lparr>opt_width = Some (Fin 0)\<rparr> ''<p>x</p>''
                  \<lparr>trace = [], open_pages = 0\<rparr>)) =
         PageOpen # SetViewport \<lparr>width = Fin 960, height = Fin 800, deviceScaleFactor = Fin 2\<rparr> # rest)
   \<and> (\<exists>rest. trace (snd (session Paste calm_browser \<lparr>opt_width = Some NaN\<rparr> ''<p>x</p>''
                  \<lparr>trace = [], open_pages = 0\<rparr>)) =
         PageOpen # SetViewport \<lparr>width = Fin 960, height = Fin 800, deviceScaleFactor = Fin 2\<rparr> # rest)
   \<and> (\<exists>rest. trace (snd (session Article calm_browser \<lparr>opt_width = None\<rparr> ''<p>x</p>''
                  \<lparr>trace = [], open_pages = 0\<rparr>)) =
         PageOpen # SetViewport \<lparr>width = Fin 960, height = Fin 800, deviceScaleFactor = Fin 2\<rparr> # rest)"
proof -
  have h1: "puppeteer_present calm_browser" by (simp add: calm_browser_def)
  have h2: "page_fails calm_browser = None" by (simp add: calm_browser_def)
  from viewport_applied [OF h1 h2, of Article "\<lparr>opt_width = Some (Fin 1280)\<rparr>" "''<p>x</p>''"
      "\<lparr>trace = [], open_pages = 0\<rparr>"]
    viewport_applied [OF h1 h2, of Paste "\<lparr>opt_width = Some (Fin 0)\<rparr>" "''<p>x</p>''"
      "\<lparr>trace = [], open_pages = 0\<rparr>"]
    viewport_applied [OF h1 h2, of Paste "\<lparr>opt_width = Some NaN\<rparr>" "''<p>x</p>''"
      "\<lparr>trace = [], open_pages = 0\<rparr>"]
    viewport_applied [OF h1 h2, of Article "\<lparr>opt_width = None\<rparr>" "''<p>x</p>''"
      "\<lparr>trace = [], open_pages = 0\<rparr>"]
  show ?thesis using h1 h2 by simp
qed

end
